theory Spec2Isabelle
  imports Complex_Main "HOL-Library.Multiset"
begin

section \<open>TheodoraQ: class, assignment and quiz-submission handlers\<close>

text \<open>
  A shallow embedding of the Express handlers of
  \<^verbatim>\<open>backend/controllers/classController.js\<close> (class handlers, and the assignment
  handlers that follow them in the same source file), of the Mongoose schemas of
  \<^verbatim>\<open>backend/models/Assignment.js\<close> and of the Kafka consumer
  \<^verbatim>\<open>backend/utils/quizSubmissionConsumer.js\<close>.

  Every handler is a function from the database and the request to a reply and the
  database afterwards. Requests are handled one at a time: the interleaving of two
  handlers between their \<^verbatim>\<open>await\<close> points is not part of the model.
\<close>

subsection \<open>JavaScript strings\<close>

text \<open>
  Strings are ASCII character lists. \<^verbatim>\<open>toUpperCase\<close>, \<^verbatim>\<open>toLowerCase\<close> and
  \<^verbatim>\<open>trim\<close> are the JavaScript methods restricted to ASCII: case mapping touches the 26
  letters only, and white space is space, tab, line feed, vertical tab, form feed and
  carriage return.
\<close>

definition toUpperCase_char :: "char \<Rightarrow> char" where
  "toUpperCase_char c =
     (case map_of (zip ''abcdefghijklmnopqrstuvwxyz'' ''ABCDEFGHIJKLMNOPQRSTUVWXYZ'') c of
        Some u \<Rightarrow> u | None \<Rightarrow> c)"

definition toLowerCase_char :: "char \<Rightarrow> char" where
  "toLowerCase_char c =
     (case map_of (zip ''ABCDEFGHIJKLMNOPQRSTUVWXYZ'' ''abcdefghijklmnopqrstuvwxyz'') c of
        Some l \<Rightarrow> l | None \<Rightarrow> c)"

definition toUpperCase :: "string \<Rightarrow> string" where
  "toUpperCase s = map toUpperCase_char s"

definition toLowerCase :: "string \<Rightarrow> string" where
  "toLowerCase s = map toLowerCase_char s"

definition isWhiteSpace :: "char \<Rightarrow> bool" where
  "isWhiteSpace c \<longleftrightarrow> c \<in> set [CHR '' '', CHR 0x09, CHR 0x0A, CHR 0x0B, CHR 0x0C, CHR 0x0D]"

definition trim :: "string \<Rightarrow> string" where
  "trim s = rev (dropWhile isWhiteSpace (rev (dropWhile isWhiteSpace s)))"

text \<open>\<^verbatim>\<open>s.split(',')\<close>: the pieces between the commas, empty pieces included.\<close>

fun split_comma :: "string \<Rightarrow> string list" where
  "split_comma [] = [[]]"
| "split_comma (c # cs) =
     (if c = CHR '','' then [] # split_comma cs
      else (case split_comma cs of p # ps \<Rightarrow> (c # p) # ps | [] \<Rightarrow> [[c]]))"

text \<open>\<^verbatim>\<open>s.includes(',')\<close>\<close>

definition includes_comma :: "string \<Rightarrow> bool" where
  "includes_comma s \<longleftrightarrow> CHR '','' \<in> set s"

subsection \<open>The registration-number patterns\<close>

text \<open>The character classes \<^verbatim>\<open>\d\<close> and \<^verbatim>\<open>[A-Z]\<close>.\<close>

definition isDigit :: "char \<Rightarrow> bool" where
  "isDigit c \<longleftrightarrow> c \<in> set ''0123456789''"

definition isUpperAZ :: "char \<Rightarrow> bool" where
  "isUpperAZ c \<longleftrightarrow> c \<in> set ''ABCDEFGHIJKLMNOPQRSTUVWXYZ''"

text \<open>
  The anchored patterns \<^verbatim>\<open>/^\d{2}([A-Z]{2,4})\d+$/\<close>, \<^verbatim>\<open>/^\d{4}([A-Z]{2,4})\d+$/\<close> and
  \<^verbatim>\<open>/^([A-Z]{2,4})\d+$/\<close> are \<open>n\<close> digits (\<open>n\<close> = 2, 4, 0), a group of two to four
  capital letters, and one or more digits up to the end. A digit is not a capital
  letter, so the group is the whole run of capital letters after the first \<open>n\<close>
  characters. The result is the captured group, \<open>None\<close> when the pattern does not
  match.
\<close>

definition match_anchored :: "nat \<Rightarrow> string \<Rightarrow> string option" where
  "match_anchored n s =
     (let ds = take n s; rest = drop n s;
          ls = takeWhile isUpperAZ rest; ts = dropWhile isUpperAZ rest
      in if length ds = n \<and> list_all isDigit ds \<and> 2 \<le> length ls \<and> length ls \<le> 4
            \<and> ts \<noteq> [] \<and> list_all isDigit ts
         then Some ls else None)"

text \<open>
  The unanchored pattern \<^verbatim>\<open>/([A-Z]{2,4})/\<close> (written \<^verbatim>\<open>/[A-Z]{2,4}/\<close> with
  \<^verbatim>\<open>match[0]\<close> in getSingleAssignment): the leftmost position where two capital
  letters follow each other, and from there as many capital letters as there are,
  four at most.
\<close>

fun match_unanchored :: "string \<Rightarrow> string option" where
  "match_unanchored [] = None"
| "match_unanchored [c] = None"
| "match_unanchored (c # d # cs) =
     (if isUpperAZ c \<and> isUpperAZ d then Some (take 4 (takeWhile isUpperAZ (c # d # cs)))
      else match_unanchored (d # cs))"

text \<open>
  \<^verbatim>\<open>extractBranch\<close> as getCandidateAssignments declares it (lines 1098-1116): the
  registration number is put in upper case and trimmed before the patterns are tried.
\<close>

definition extractBranch_getCandidateAssignments :: "string \<Rightarrow> string option" where
  "extractBranch_getCandidateAssignments registrationNumber =
     (if registrationNumber = [] then None
      else let regNum = trim (toUpperCase registrationNumber) in
        (case match_anchored 2 regNum of Some b \<Rightarrow> Some b | None \<Rightarrow>
        (case match_anchored 4 regNum of Some b \<Rightarrow> Some b | None \<Rightarrow>
        (case match_anchored 0 regNum of Some b \<Rightarrow> Some b | None \<Rightarrow>
         match_unanchored regNum))))"

text \<open>
  \<^verbatim>\<open>extractBranch\<close> as getSingleAssignment declares it (lines 708-727): the
  registration number is trimmed only.
\<close>

definition extractBranch_getSingleAssignment :: "string \<Rightarrow> string option" where
  "extractBranch_getSingleAssignment registrationNumber =
     (if registrationNumber = [] then None
      else let regNum = trim registrationNumber in
        (case match_anchored 2 regNum of Some b \<Rightarrow> Some b | None \<Rightarrow>
        (case match_anchored 4 regNum of Some b \<Rightarrow> Some b | None \<Rightarrow>
        (case match_anchored 0 regNum of Some b \<Rightarrow> Some b | None \<Rightarrow>
         match_unanchored regNum))))"

subsection \<open>JavaScript numbers\<close>

text \<open>
  A finite JavaScript number is the rational it denotes. \<open>fl\<close> rounds a rational to the
  nearest number with a 53-bit significand, ties to the even significand, which is what
  every arithmetic operation on doubles does to its exact result. The exponent range is
  not bounded: overflow to Infinity and subnormal numbers are not modelled (scores are
  between 0 and 100). \<open>0 / 0\<close> is NaN, the one non-finite value the handlers can
  compute; it is \<open>None\<close>.
\<close>

function bitlen :: "int \<Rightarrow> int" where
  "bitlen n = (if n \<le> 0 then 0 else 1 + bitlen (n div 2))"
  by pat_completeness auto
termination
  by (relation "measure nat") auto

declare bitlen.simps [simp del]

definition pow2 :: "int \<Rightarrow> rat" where
  "pow2 e = (if 0 \<le> e then 2 ^ nat e else 1 / 2 ^ nat (- e))"

text \<open>For \<open>x > 0\<close>, the \<open>k\<close> with \<open>2 ^ k \<le> x < 2 ^ (k + 1)\<close>.\<close>

definition ilog2 :: "rat \<Rightarrow> int" where
  "ilog2 x = (let (a, b) = quotient_of x; d = bitlen a - bitlen b
              in if pow2 d \<le> x then d else d - 1)"

definition round_half_even :: "rat \<Rightarrow> int" where
  "round_half_even m =
     (let f = \<lfloor>m\<rfloor>; r = m - of_int f
      in if r < 1 / 2 then f else if 1 / 2 < r then f + 1 else if even f then f else f + 1)"

definition fl :: "rat \<Rightarrow> rat" where
  "fl x = (if x = 0 then 0
           else let e = ilog2 \<bar>x\<bar> - 52 in of_int (round_half_even (x / pow2 e)) * pow2 e)"

text \<open>The operators \<^verbatim>\<open>*\<close> and \<^verbatim>\<open>/\<close> on finite numbers; a zero divisor gives no finite number.\<close>

definition js_mul :: "rat \<Rightarrow> rat \<Rightarrow> rat" where
  "js_mul a b = fl (a * b)"

definition js_div :: "rat \<Rightarrow> rat \<Rightarrow> rat option" where
  "js_div a b = (if b = 0 then None else Some (fl (a / b)))"


subsection \<open>Documents\<close>

text \<open>
  An ObjectId is a natural number; \<^verbatim>\<open>a.toString() === b.toString()\<close> on ObjectIds is
  equality of the ids. A date is its time value in milliseconds.
\<close>

type_synonym oid = nat
type_synonym date = int

text \<open>
  A question of a quiz. The Quiz model is not among the sources; these are the fields
  the handlers read (\<^verbatim>\<open>_id\<close>, \<^verbatim>\<open>text\<close>, \<^verbatim>\<open>type\<close>, \<^verbatim>\<open>options\<close>, \<^verbatim>\<open>answer\<close>).
\<close>

record question =
  q_id :: oid
  q_text :: string
  q_type :: string
  q_options :: "string list"
  q_answer :: string

record quiz =
  quiz_id :: oid
  quiz_adminId :: oid
  quiz_title :: string
  quiz_questions :: "question list"

text \<open>
  \<^verbatim>\<open>answerSchema\<close> (Assignment.js, lines 6-19). \<^verbatim>\<open>questionId\<close> holds
  \<^verbatim>\<open>question._id.toString()\<close>, here the id itself.
\<close>

record answer =
  ans_questionId :: oid
  ans_selectedAnswer :: string
  ans_isCorrect :: bool

text \<open>
  \<^verbatim>\<open>submissionSchema\<close> (Assignment.js, lines 22-37): the paths \<^verbatim>\<open>candidateId\<close>,
  \<^verbatim>\<open>score\<close>, \<^verbatim>\<open>submittedAt\<close> and \<^verbatim>\<open>answers\<close>. The generated \<^verbatim>\<open>_id\<close> of the
  subdocument is read by getSubmissionDetails only and is left out.
\<close>

record submission =
  s_candidateId :: oid
  s_score :: rat
  s_submittedAt :: date
  s_answers :: "answer list"

text \<open>\<^verbatim>\<open>assignmentSchema\<close> (Assignment.js, lines 39-97), without the timestamps.\<close>

record assignment =
  a_id :: oid
  a_quizId :: oid
  a_classId :: oid
  a_adminId :: oid
  a_subgroup :: string
  a_subclasses :: "string list"
  a_dueDate :: date
  a_timeLimit :: int
  a_weightage :: rat
  a_weightageType :: string
  a_submissions :: "submission list"

text \<open>
  A class document, as the handlers use it. \<^verbatim>\<open>classSchema\<close> (in a source file whose
  path is not known) declares \<^verbatim>\<open>title\<close>, \<^verbatim>\<open>courseCode\<close>, \<^verbatim>\<open>description\<close>,
  \<^verbatim>\<open>adminId\<close>, \<^verbatim>\<open>students\<close>, \<^verbatim>\<open>inviteCode\<close> and \<^verbatim>\<open>isActive\<close>; the other fields
  are the class settings that updateClass writes and that submitQuiz,
  getSingleAssignment and getCandidateAssignments read from the class document. They
  are taken as stored fields, and writing a class document is not validated. A setting
  that was never written reads as \<^verbatim>\<open>undefined\<close>, which every use below treats as
  \<open>False\<close> (or the empty string).
\<close>

record classDoc =
  c_id :: oid
  c_title :: string
  c_courseCode :: string
  c_description :: string
  c_adminId :: oid
  c_students :: "oid list"
  c_inviteCode :: string
  c_isActive :: bool
  c_semester :: string
  c_academicYear :: string
  c_allowLateSubmissions :: bool
  c_autoGrading :: bool
  c_showResults :: bool
  c_showRosterToCandidates :: bool
  c_showLeaderboardToCandidates :: bool

text \<open>
  A user document (the User model is not among the sources): the fields the handlers
  select. A user without registration number has the empty string.
\<close>

record user =
  u_id :: oid
  u_name :: string
  u_email :: string
  u_registrationNumber :: string

text \<open>
  \<^verbatim>\<open>req.user\<close>, as the authentication middleware leaves it. Every request has one, so
  the branches of the handlers for a missing user id are left out.
\<close>

record auth_user =
  au_id :: oid
  au_role :: string

record db =
  classes :: "classDoc list"
  assignments :: "assignment list"
  quizzes :: "quiz list"
  users :: "user list"

text \<open>What a handler sends: the HTTP status, the message and the data, if any.\<close>

datatype 'a reply = Reply (status: nat) (message: string) (payload: "'a option")

subsection \<open>Queries and saves\<close>

definition findClassById :: "db \<Rightarrow> oid \<Rightarrow> classDoc option" where
  "findClassById d i = find (\<lambda>c. c_id c = i) (classes d)"

definition findAssignmentById :: "db \<Rightarrow> oid \<Rightarrow> assignment option" where
  "findAssignmentById d i = find (\<lambda>a. a_id a = i) (assignments d)"

definition findQuizById :: "db \<Rightarrow> oid \<Rightarrow> quiz option" where
  "findQuizById d i = find (\<lambda>q. quiz_id q = i) (quizzes d)"

definition findUserById :: "db \<Rightarrow> oid \<Rightarrow> user option" where
  "findUserById d i = find (\<lambda>u. u_id u = i) (users d)"

text \<open>\<^verbatim>\<open>doc.save()\<close> on a class document writes the document back under its id.\<close>

definition save_class :: "db \<Rightarrow> classDoc \<Rightarrow> db" where
  "save_class d c = d\<lparr>classes := map (\<lambda>x. if c_id x = c_id c then c else x) (classes d)\<rparr>"

text \<open>
  Saving an assignment validates it against the schemas of Assignment.js first:
  \<^verbatim>\<open>selectedAnswer\<close> is a required string, and Mongoose's required validator does not
  accept the empty string; \<^verbatim>\<open>weightage\<close> has \<^verbatim>\<open>min: 0\<close>; \<^verbatim>\<open>weightageType\<close> is one of
  the two enum values. The other required paths always hold a value in this model. A
  failed validation makes \<^verbatim>\<open>save()\<close> throw, and nothing is written. (The whole
  document is validated; what is already stored passed when it was written.)
\<close>

definition answer_valid :: "answer \<Rightarrow> bool" where
  "answer_valid a \<longleftrightarrow> ans_selectedAnswer a \<noteq> []"

definition submission_valid :: "submission \<Rightarrow> bool" where
  "submission_valid s \<longleftrightarrow> list_all answer_valid (s_answers s)"

definition assignment_valid :: "assignment \<Rightarrow> bool" where
  "assignment_valid a \<longleftrightarrow>
     0 \<le> a_weightage a \<and> a_weightageType a \<in> set [''percentage'', ''marks'']
     \<and> list_all submission_valid (a_submissions a)"

definition save_assignment :: "db \<Rightarrow> assignment \<Rightarrow> db option" where
  "save_assignment d a =
     (if assignment_valid a
      then Some (d\<lparr>assignments := map (\<lambda>x. if a_id x = a_id a then a else x) (assignments d)\<rparr>)
      else None)"

subsection \<open>Class handlers\<close>

text \<open>
  Request bodies are typed: a field is absent or holds a value of the type the handler
  expects. A string field that the handler only tests for truthiness is the empty
  string when absent.
\<close>


record updateClass_body =
  uc_title :: "string option"
  uc_courseCode :: "string option"
  uc_description :: "string option"
  uc_semester :: "string option"
  uc_academicYear :: "string option"
  uc_allowLateSubmissions :: "bool option"
  uc_autoGrading :: "bool option"
  uc_showResults :: "bool option"
  uc_showRosterToCandidates :: "bool option"
  uc_showLeaderboardToCandidates :: "bool option"

text \<open>\<^verbatim>\<open>if (x !== undefined) updateData.x = x\<close>\<close>

definition provided :: "'a option \<Rightarrow> 'a \<Rightarrow> 'a" where
  "provided new old = (case new of Some v \<Rightarrow> v | None \<Rightarrow> old)"

text \<open>\<^verbatim>\<open>updateClass\<close> (lines 167-236)\<close>

definition updateClass ::
  "db \<Rightarrow> auth_user \<Rightarrow> oid \<Rightarrow> updateClass_body \<Rightarrow> classDoc reply \<times> db" where
  "updateClass d u i b =
     (case findClassById d i of
        None \<Rightarrow> (Reply 404 ''Class not found'' None, d)
      | Some classToUpdate \<Rightarrow>
          if c_adminId classToUpdate \<noteq> au_id u
          then (Reply 403
                 ''Not authorized to update this class. Only the class creator can update it.''
                 None, d)
          else let updatedClass = classToUpdate\<lparr>
                     c_title := provided (uc_title b) (c_title classToUpdate),
                     c_courseCode := provided (uc_courseCode b) (c_courseCode classToUpdate),
                     c_description := provided (uc_description b) (c_description classToUpdate),
                     c_semester := provided (uc_semester b) (c_semester classToUpdate),
                     c_academicYear := provided (uc_academicYear b) (c_academicYear classToUpdate),
                     c_allowLateSubmissions :=
                       provided (uc_allowLateSubmissions b) (c_allowLateSubmissions classToUpdate),
                     c_autoGrading := provided (uc_autoGrading b) (c_autoGrading classToUpdate),
                     c_showResults := provided (uc_showResults b) (c_showResults classToUpdate),
                     c_showRosterToCandidates :=
                       provided (uc_showRosterToCandidates b) (c_showRosterToCandidates classToUpdate),
                     c_showLeaderboardToCandidates :=
                       provided (uc_showLeaderboardToCandidates b)
                         (c_showLeaderboardToCandidates classToUpdate)\<rparr>
               in (Reply 200 ''Class updated successfully'' (Some updatedClass),
                   save_class d updatedClass))"

text \<open>\<^verbatim>\<open>deleteClass\<close> (lines 242-281)\<close>

definition deleteClass :: "db \<Rightarrow> auth_user \<Rightarrow> oid \<Rightarrow> unit reply \<times> db" where
  "deleteClass d u i =
     (case findClassById d i of
        None \<Rightarrow> (Reply 404 ''Class not found'' None, d)
      | Some classToDelete \<Rightarrow>
          if c_adminId classToDelete \<noteq> au_id u
          then (Reply 403
                 ''Not authorized to delete this class. Only the class creator can delete it.''
                 None, d)
          else (Reply 200 ''Class deleted successfully'' None,
                d\<lparr>classes := filter (\<lambda>c. c_id c \<noteq> i) (classes d)\<rparr>))"

text \<open>
  \<^verbatim>\<open>joinClass\<close> (lines 287-363). \<open>inviteCode\<close> is the string of the request body, empty
  when the body has none.
\<close>

definition joinClass :: "db \<Rightarrow> auth_user \<Rightarrow> string \<Rightarrow> classDoc reply \<times> db" where
  "joinClass d u inviteCode =
     (if inviteCode = [] then (Reply 400 ''Invite code is required'' None, d)
      else if au_role u \<noteq> ''candidate''
      then (Reply 403 ''Only candidates can join a class'' None, d)
      else (case find (\<lambda>c. c_inviteCode c = inviteCode \<and> c_isActive c) (classes d) of
              None \<Rightarrow> (Reply 404 ''Class not found. Please check the invite code.'' None, d)
            | Some classToJoin \<Rightarrow>
                if au_id u \<in> set (c_students classToJoin)
                then (Reply 400 ''You are already enrolled in this class'' None, d)
                else let joined = classToJoin\<lparr>c_students := c_students classToJoin @ [au_id u]\<rparr>
                     in (Reply 200 ''Successfully joined class!'' (Some joined),
                         save_class d joined)))"

text \<open>
  The loop of \<^verbatim>\<open>removeStudentFromClass\<close> over the assignments of the class (lines
  422-432): the submissions of the student are filtered out, and an assignment that lost
  one is saved. The result is the number of submissions removed, or \<open>None\<close> when a
  save threw; the saves done before stay.
\<close>

fun removeSubmissions :: "oid \<Rightarrow> assignment list \<Rightarrow> nat \<Rightarrow> db \<Rightarrow> nat option \<times> db" where
  "removeSubmissions studentId [] totalSubmissionsRemoved d = (Some totalSubmissionsRemoved, d)"
| "removeSubmissions studentId (a # as) totalSubmissionsRemoved d =
     (let kept = filter (\<lambda>sub. s_candidateId sub \<noteq> studentId) (a_submissions a);
          removedCount = length (a_submissions a) - length kept
      in if 0 < removedCount
         then (case save_assignment d (a\<lparr>a_submissions := kept\<rparr>) of
                 None \<Rightarrow> (None, d)
               | Some d' \<Rightarrow> removeSubmissions studentId as (totalSubmissionsRemoved + removedCount) d')
         else removeSubmissions studentId as totalSubmissionsRemoved d)"

text \<open>
  \<^verbatim>\<open>removeStudentFromClass\<close> (lines 369-451). The payload is the number of deleted
  submissions, which the source appends to the message.
\<close>

definition removeStudentFromClass ::
  "db \<Rightarrow> auth_user \<Rightarrow> oid \<Rightarrow> oid option \<Rightarrow> nat reply \<times> db" where
  "removeStudentFromClass d u i studentId =
     (case studentId of
        None \<Rightarrow> (Reply 400 ''Student ID is required'' None, d)
      | Some sid \<Rightarrow>
         (case findClassById d i of
            None \<Rightarrow> (Reply 404 ''Class not found'' None, d)
          | Some classDoc \<Rightarrow>
              if c_adminId classDoc \<noteq> au_id u
              then (Reply 403
                ''Not authorized to modify this class. Only the class creator can remove students.''
                None, d)
              else if sid \<notin> set (c_students classDoc)
              then (Reply 400 ''Student is not enrolled in this class'' None, d)
              else let d1 = save_class d
                         (classDoc\<lparr>c_students := filter (\<lambda>x. x \<noteq> sid) (c_students classDoc)\<rparr>)
                   in (case removeSubmissions sid
                             (filter (\<lambda>a. a_classId a = i) (assignments d1)) 0 d1 of
                         (None, d2) \<Rightarrow> (Reply 500 ''Failed to remove student from class'' None, d2)
                       | (Some n, d2) \<Rightarrow>
                           (Reply 200 ''Student removed from class successfully.'' (Some n), d2))))"

subsection \<open>Assignment handlers\<close>

text \<open>
  A date or number of a request body: absent, present but not a date or number
  (\<^verbatim>\<open>new Date\<close> gives an invalid date, \<^verbatim>\<open>parseInt\<close>, \<^verbatim>\<open>parseFloat\<close> or \<^verbatim>\<open>Number\<close>
  give NaN), or the value.
\<close>

datatype 'a parsed = Missing | Malformed | Parsed 'a






record updateAssignment_body =
  ua_dueDate :: "date parsed"
  ua_timeLimit :: "int parsed"
  ua_weightage :: "rat parsed"
  ua_weightageType :: "string option"
  ua_allowRetake :: bool
  ua_subgroup :: "string option"
  ua_proctoringEnabled :: "bool option"

text \<open>
  The field updates of \<^verbatim>\<open>updateAssignment\<close> (lines 907-979) on the document in memory,
  in the order of the source. The result is the message of the first check that
  fails, or the document to save. \<^verbatim>\<open>proctoringEnabled\<close> is not a path of
  \<^verbatim>\<open>assignmentSchema\<close>: assigning it changes nothing that is saved.
\<close>

definition applyAssignmentUpdates :: "updateAssignment_body \<Rightarrow> assignment \<Rightarrow> string + assignment" where
  "applyAssignmentUpdates b a0 =
     (case (case ua_dueDate b of
              Missing \<Rightarrow> Inr a0
            | Malformed \<Rightarrow> Inl ''Invalid due date format''
            | Parsed due \<Rightarrow> Inr (a0\<lparr>a_dueDate := due\<rparr>)) of
        Inl e \<Rightarrow> Inl e
      | Inr a1 \<Rightarrow>
     (case (case ua_timeLimit b of
              Missing \<Rightarrow> Inr a1
            | Malformed \<Rightarrow> Inl ''Time limit must be a positive number''
            | Parsed minutes \<Rightarrow> if minutes \<le> 0 then Inl ''Time limit must be a positive number''
                            else Inr (a1\<lparr>a_timeLimit := minutes\<rparr>)) of
        Inl e \<Rightarrow> Inl e
      | Inr a2 \<Rightarrow>
     (case (case ua_weightage b of
              Missing \<Rightarrow> Inr a2
            | Malformed \<Rightarrow> Inl ''Weightage must be a positive number''
            | Parsed w \<Rightarrow>
                if w \<le> 0 then Inl ''Weightage must be a positive number''
                else if ua_weightageType b = Some ''percentage'' \<and> 100 < w
                then Inl ''Percentage weightage cannot exceed 100%''
                else Inr (a2\<lparr>a_weightage := w\<rparr>)) of
        Inl e \<Rightarrow> Inl e
      | Inr a3 \<Rightarrow>
     (case (case ua_weightageType b of
              None \<Rightarrow> Inr a3
            | Some t \<Rightarrow> if t \<notin> set [''percentage'', ''marks'']
                        then Inl ''Weightage type must be either percentage or marks''
                        else Inr (a3\<lparr>a_weightageType := t\<rparr>)) of
        Inl e \<Rightarrow> Inl e
      | Inr a4 \<Rightarrow>
          let a5 = (case ua_subgroup b of None \<Rightarrow> a4 | Some sg \<Rightarrow> a4\<lparr>a_subgroup := trim sg\<rparr>)
          in Inr (if ua_allowRetake b then a5\<lparr>a_submissions := []\<rparr> else a5)))))"

text \<open>\<^verbatim>\<open>updateAssignment\<close> (lines 881-1002)\<close>

definition updateAssignment ::
  "db \<Rightarrow> auth_user \<Rightarrow> oid \<Rightarrow> updateAssignment_body \<Rightarrow> assignment reply \<times> db" where
  "updateAssignment d u i b =
     (case findAssignmentById d i of
        None \<Rightarrow> (Reply 404 ''Assignment not found'' None, d)
      | Some a \<Rightarrow>
          if a_adminId a \<noteq> au_id u
          then (Reply 403 ''Not authorized to update this assignment'' None, d)
          else (case applyAssignmentUpdates b a of
                  Inl e \<Rightarrow> (Reply 400 e None, d)
                | Inr a' \<Rightarrow>
                    (case save_assignment d a' of
                       None \<Rightarrow> (Reply 500 ''Failed to update assignment'' None, d)
                     | Some d' \<Rightarrow> (Reply 200 ''Assignment updated successfully'' (Some a'), d'))))"

text \<open>\<^verbatim>\<open>deleteAssignment\<close> (lines 1008-1048)\<close>

definition deleteAssignment :: "db \<Rightarrow> auth_user \<Rightarrow> oid \<Rightarrow> unit reply \<times> db" where
  "deleteAssignment d u i =
     (case findAssignmentById d i of
        None \<Rightarrow> (Reply 404 ''Assignment not found'' None, d)
      | Some a \<Rightarrow>
          if a_adminId a \<noteq> au_id u
          then (Reply 403 ''Not authorized to delete this assignment'' None, d)
          else (Reply 200 ''Assignment deleted successfully'' None,
                d\<lparr>assignments := filter (\<lambda>x. a_id x \<noteq> i) (assignments d)\<rparr>))"

subsection \<open>Branch eligibility\<close>

text \<open>The filter callback of \<^verbatim>\<open>getCandidateAssignments\<close> (lines 1122-1149).\<close>

definition eligible :: "string option \<Rightarrow> assignment \<Rightarrow> bool" where
  "eligible candidateBranch a =
     (if a_subgroup a = [] then True
      else (case candidateBranch of
              None \<Rightarrow> False
            | Some br \<Rightarrow>
                let subgroup = toUpperCase (a_subgroup a)
                in if includes_comma subgroup
                   then toUpperCase br \<in> set (map trim (split_comma subgroup))
                   else toUpperCase br = subgroup))"

text \<open>
  The subgroup restriction of \<^verbatim>\<open>getSingleAssignment\<close> (lines 695-765): \<open>True\<close> when
  the handler goes on, \<open>False\<close> when it answers 403.
\<close>

definition subgroupAllows :: "db \<Rightarrow> oid \<Rightarrow> assignment \<Rightarrow> bool" where
  "subgroupAllows d candidateId a =
     (if a_subgroup a = [] then True
      else (case findUserById d candidateId of
              None \<Rightarrow> False
            | Some candidate \<Rightarrow>
                if u_registrationNumber candidate = [] then False
                else (case extractBranch_getSingleAssignment (u_registrationNumber candidate) of
                        None \<Rightarrow> False
                      | Some br \<Rightarrow>
                          let subgroup = toUpperCase (trim (a_subgroup a))
                          in if includes_comma subgroup
                             then toUpperCase br \<in> set (map trim (split_comma subgroup))
                             else toUpperCase br = subgroup)))"

subsection \<open>getSingleAssignment\<close>

text \<open>
  A question as the plain object \<^verbatim>\<open>q.toObject()\<close>: its fields in order, by name.
\<close>

datatype jsval = JId oid | JStr string | JStrs "string list"

type_synonym jsobject = "(string \<times> jsval) list"

definition question_toObject :: "question \<Rightarrow> jsobject" where
  "question_toObject q =
     [(''_id'', JId (q_id q)), (''text'', JStr (q_text q)), (''type'', JStr (q_type q)),
      (''options'', JStrs (q_options q)), (''answer'', JStr (q_answer q))]"

text \<open>\<^verbatim>\<open>const { answer, ...questionWithoutAnswer } = q\<close>\<close>

definition questionWithoutAnswer :: "jsobject \<Rightarrow> jsobject" where
  "questionWithoutAnswer obj = filter (\<lambda>(k, v). k \<noteq> ''answer'') obj"

text \<open>
  \<^verbatim>\<open>shuffle\<close> (lines 770-776). \<open>rnd i\<close> is the draw at index \<open>i\<close>;
  \<^verbatim>\<open>Math.floor(Math.random() * (i + 1))\<close> is an index from \<open>0\<close> to \<open>i\<close>, here
  \<open>rnd i mod (i + 1)\<close>.
\<close>

fun shuffle_from :: "(nat \<Rightarrow> nat) \<Rightarrow> nat \<Rightarrow> 'a list \<Rightarrow> 'a list" where
  "shuffle_from rnd 0 array = array"
| "shuffle_from rnd (Suc i) array =
     (let j = rnd (Suc i) mod (Suc i + 1)
      in shuffle_from rnd i (array[Suc i := array ! j, j := array ! Suc i]))"

definition shuffle :: "(nat \<Rightarrow> nat) \<Rightarrow> 'a list \<Rightarrow> 'a list" where
  "shuffle rnd array = shuffle_from rnd (length array - 1) array"

record single_assignment =
  sa_assignmentId :: oid
  sa_classId :: oid
  sa_className :: string
  sa_title :: string
  sa_timeLimit :: int
  sa_dueDate :: date
  sa_questions :: "jsobject list"
  sa_hasSubmitted :: bool
  sa_submissionScore :: "rat option"
  sa_isPastDue :: bool
  sa_allowLateSubmissions :: bool
  sa_proctoringEnabled :: bool

text \<open>
  \<^verbatim>\<open>getSingleAssignment\<close> (lines 646-834) at time \<open>now\<close>. A populated reference whose
  document is gone is \<^verbatim>\<open>null\<close>, and reading a field of it throws, which the handler
  answers with 500.
\<close>

definition getSingleAssignment ::
  "db \<Rightarrow> auth_user \<Rightarrow> (nat \<Rightarrow> nat) \<Rightarrow> date \<Rightarrow> oid \<Rightarrow> single_assignment reply" where
  "getSingleAssignment d u rnd now assignmentId =
     (if au_role u \<noteq> ''candidate'' then Reply 403 ''Only candidates can take quizzes'' None
      else (case findAssignmentById d assignmentId of
        None \<Rightarrow> Reply 404 ''Assignment not found'' None
      | Some a \<Rightarrow>
       (case findClassById d (a_classId a) of
          None \<Rightarrow> Reply 500 ''Failed to fetch assignment'' None
        | Some cls \<Rightarrow>
            if find (\<lambda>c. c_id c = c_id cls \<and> au_id u \<in> set (c_students c)) (classes d) = None
            then Reply 403 ''You are not enrolled in the class for this assignment'' None
            else if \<not> subgroupAllows d (au_id u) a
            then Reply 403 ''You are not authorized to access this quiz (subgroup mismatch)'' None
            else (case findQuizById d (a_quizId a) of
                    None \<Rightarrow> Reply 500 ''Failed to fetch assignment'' None
                  | Some quizData \<Rightarrow>
                      let questionsForCandidate =
                            map (\<lambda>q. questionWithoutAnswer (question_toObject q))
                              (shuffle rnd (quiz_questions quizData));
                          existingSubmission =
                            find (\<lambda>sub. s_candidateId sub = au_id u) (a_submissions a)
                      in Reply 200 [] (Some
                           \<lparr>sa_assignmentId = a_id a, sa_classId = c_id cls,
                            sa_className = c_title cls, sa_title = quiz_title quizData,
                            sa_timeLimit = a_timeLimit a, sa_dueDate = a_dueDate a,
                            sa_questions = questionsForCandidate,
                            sa_hasSubmitted = (existingSubmission \<noteq> None),
                            sa_submissionScore = map_option s_score existingSubmission,
                            sa_isPastDue = (a_dueDate a < now),
                            sa_allowLateSubmissions = c_allowLateSubmissions cls,
                            sa_proctoringEnabled = False\<rparr>)))))"

subsection \<open>getCandidateAssignments\<close>

text \<open>
  An entry of the list the handler sends: the assignment with the submission status of
  the candidate. \<^verbatim>\<open>candidateSubmission.isLateSubmission\<close> reads a path that
  \<^verbatim>\<open>submissionSchema\<close> does not declare, so for a stored submission it is
  \<^verbatim>\<open>undefined\<close> (\<open>None\<close>); without a submission the handler puts \<^verbatim>\<open>false\<close>.
\<close>

record candidate_assignment =
  cas_assignment :: assignment
  cas_hasSubmitted :: bool
  cas_submissionScore :: "rat option"
  cas_submittedAt :: "date option"
  cas_isLateSubmission :: "bool option"
  cas_allowLateSubmissions :: bool

definition withStatus :: "classDoc \<Rightarrow> oid \<Rightarrow> assignment \<Rightarrow> candidate_assignment" where
  "withStatus classData candidateId a =
     (let candidateSubmission = find (\<lambda>sub. s_candidateId sub = candidateId) (a_submissions a)
      in \<lparr>cas_assignment = a,
          cas_hasSubmitted = (candidateSubmission \<noteq> None),
          cas_submissionScore =
            (if c_showResults classData then map_option s_score candidateSubmission else None),
          cas_submittedAt = map_option s_submittedAt candidateSubmission,
          cas_isLateSubmission =
            (case candidateSubmission of Some sub \<Rightarrow> None | None \<Rightarrow> Some False),
          cas_allowLateSubmissions = c_allowLateSubmissions classData\<rparr>)"

text \<open>\<^verbatim>\<open>getCandidateAssignments\<close> (lines 1054-1186)\<close>

definition getCandidateAssignments ::
  "db \<Rightarrow> auth_user \<Rightarrow> oid \<Rightarrow> candidate_assignment list reply" where
  "getCandidateAssignments d u classId =
     (if au_role u \<noteq> ''candidate'' then Reply 403 ''Only candidates can view assignments'' None
      else (case find (\<lambda>c. c_id c = classId \<and> au_id u \<in> set (c_students c)) (classes d) of
              None \<Rightarrow> Reply 404 ''Class not found or you are not enrolled'' None
            | Some classData \<Rightarrow>
                let found = sort_key a_dueDate (filter (\<lambda>a. a_classId a = classId) (assignments d));
                    candidateReg = (case findUserById d (au_id u) of
                                      Some candidate \<Rightarrow> u_registrationNumber candidate
                                    | None \<Rightarrow> []);
                    candidateBranch = extractBranch_getCandidateAssignments candidateReg;
                    filteredAssignments = filter (eligible candidateBranch) found
                in Reply 200 [] (Some (map (withStatus classData (au_id u)) filteredAssignments))))"

subsection \<open>submitQuiz\<close>

text \<open>
  The request body: \<^verbatim>\<open>answers\<close> maps the id of a question to the string the candidate
  gave; the anti-cheat fields are absent or hold a value; \<^verbatim>\<open>proctoringData\<close> is an
  opaque value.
\<close>

record submitQuiz_body =
  sq_answers :: "(oid \<rightharpoonup> string) option"
  sq_tabSwitchCount :: "int option"
  sq_escCount :: "int option"
  sq_wasFullscreen :: "bool option"
  sq_proctoringData :: "string option"

text \<open>The comparison of lines 1282-1289.\<close>

definition isCorrectAnswer :: "question \<Rightarrow> string \<Rightarrow> bool" where
  "isCorrectAnswer question candidateAnswer =
     (if q_type question = ''short_answer''
      then toLowerCase (trim candidateAnswer) = toLowerCase (trim (q_answer question))
      else candidateAnswer = q_answer question)"

text \<open>
  The grading loop (lines 1273-1309) with its two accumulators. An answer that is
  absent or the empty string is falsy and takes the \<^verbatim>\<open>else\<close> branch.
\<close>

fun gradeLoop :: "(oid \<rightharpoonup> string) \<Rightarrow> question list \<Rightarrow> nat \<Rightarrow> answer list \<Rightarrow> nat \<times> answer list" where
  "gradeLoop answers [] score formattedAnswers = (score, formattedAnswers)"
| "gradeLoop answers (question # rest) score formattedAnswers =
     (case answers (q_id question) of
        Some candidateAnswer \<Rightarrow>
          if candidateAnswer \<noteq> []
          then let isCorrect = isCorrectAnswer question candidateAnswer
               in gradeLoop answers rest (if isCorrect then score + 1 else score)
                    (formattedAnswers @
                      [\<lparr>ans_questionId = q_id question, ans_selectedAnswer = candidateAnswer,
                        ans_isCorrect = isCorrect\<rparr>])
          else gradeLoop answers rest score
                 (formattedAnswers @
                   [\<lparr>ans_questionId = q_id question, ans_selectedAnswer = [], ans_isCorrect = False\<rparr>])
      | None \<Rightarrow>
          gradeLoop answers rest score
            (formattedAnswers @
              [\<lparr>ans_questionId = q_id question, ans_selectedAnswer = [], ans_isCorrect = False\<rparr>]))"

text \<open>\<^verbatim>\<open>(score / totalQuestions) * 100\<close>; NaN (\<open>None\<close>) for a quiz without questions.\<close>

definition percentageScore :: "nat \<Rightarrow> nat \<Rightarrow> rat option" where
  "percentageScore score totalQuestions =
     map_option (\<lambda>q. js_mul q 100) (js_div (of_nat score) (of_nat totalQuestions))"

text \<open>The object literal \<^verbatim>\<open>submission\<close> of lines 1317-1332.\<close>

record submission_object =
  so_candidateId :: oid
  so_score :: "rat option"
  so_submittedAt :: date
  so_isLateSubmission :: bool
  so_tabSwitchCount :: int
  so_escCount :: int
  so_wasFullscreen :: bool
  so_answers :: "answer list"
  so_proctoringData :: "string option"

definition submissionObject ::
  "auth_user \<Rightarrow> date \<Rightarrow> assignment \<Rightarrow> quiz \<Rightarrow> submitQuiz_body \<Rightarrow> (oid \<rightharpoonup> string) \<Rightarrow> submission_object" where
  "submissionObject u now a qz b answers =
     (let (score, formattedAnswers) = gradeLoop answers (quiz_questions qz) 0 []
      in \<lparr>so_candidateId = au_id u,
          so_score = percentageScore score (length (quiz_questions qz)),
          so_submittedAt = now,
          so_isLateSubmission = (a_dueDate a < now),
          so_tabSwitchCount = (case sq_tabSwitchCount b of Some n \<Rightarrow> n | None \<Rightarrow> 0),
          so_escCount = (case sq_escCount b of Some n \<Rightarrow> n | None \<Rightarrow> 0),
          so_wasFullscreen = (case sq_wasFullscreen b of Some f \<Rightarrow> f | None \<Rightarrow> False),
          so_answers = formattedAnswers,
          so_proctoringData = sq_proctoringData b\<rparr>)"

text \<open>
  \<^verbatim>\<open>assignment.submissions.push(submission)\<close> casts the object to a subdocument of
  \<^verbatim>\<open>submissionSchema\<close>. The schema is strict (the Mongoose default): a key that is not
  one of its paths is not copied. NaN is not cast to a Number: the error is reported
  by \<^verbatim>\<open>save()\<close>, here \<open>None\<close>.
\<close>

definition submissionSchema_cast :: "submission_object \<Rightarrow> submission option" where
  "submissionSchema_cast obj =
     (case so_score obj of
        None \<Rightarrow> None
      | Some sc \<Rightarrow>
          Some \<lparr>s_candidateId = so_candidateId obj, s_score = sc,
                s_submittedAt = so_submittedAt obj, s_answers = so_answers obj\<rparr>)"

record submit_result =
  sr_score :: "rat option"
  sr_totalQuestions :: "nat option"
  sr_correctCount :: "nat option"
  sr_showResults :: bool
  sr_isLateSubmission :: bool

text \<open>
  \<^verbatim>\<open>submitQuiz\<close> (lines 1192-1363) at time \<open>now\<close>. Without \<^verbatim>\<open>answers\<close> in the body,
  \<^verbatim>\<open>answers[...]\<close> throws at the first question.
\<close>

definition submitQuiz ::
  "db \<Rightarrow> auth_user \<Rightarrow> date \<Rightarrow> oid \<Rightarrow> submitQuiz_body \<Rightarrow> submit_result reply \<times> db" where
  "submitQuiz d u now assignmentId b =
     (case findAssignmentById d assignmentId of
        None \<Rightarrow> (Reply 404 ''Assignment not found'' None, d)
      | Some a \<Rightarrow>
       (case find (\<lambda>c. c_id c = a_classId a \<and> au_id u \<in> set (c_students c)) (classes d) of
          None \<Rightarrow> (Reply 403 ''You are not enrolled in this class'' None, d)
        | Some classData \<Rightarrow>
            if find (\<lambda>sub. s_candidateId sub = au_id u) (a_submissions a) \<noteq> None
            then (Reply 400 ''You have already submitted this quiz'' None, d)
            else if a_dueDate a < now \<and> \<not> c_allowLateSubmissions classData
            then (Reply 403 ''This assignment is past due and late submissions are not allowed''
                    None, d)
            else (case findQuizById d (a_quizId a) of
                    None \<Rightarrow> (Reply 500 ''Server error'' None, d)
                  | Some qz \<Rightarrow>
                      if sq_answers b = None \<and> quiz_questions qz \<noteq> []
                      then (Reply 500 ''Server error'' None, d)
                      else let answers = (case sq_answers b of Some m \<Rightarrow> m | None \<Rightarrow> Map.empty);
                               obj = submissionObject u now a qz b answers
                           in (case submissionSchema_cast obj of
                                 None \<Rightarrow> (Reply 500 ''Server error'' None, d)
                               | Some sub \<Rightarrow>
                                  (case save_assignment d
                                          (a\<lparr>a_submissions := a_submissions a @ [sub]\<rparr>) of
                                     None \<Rightarrow> (Reply 500 ''Server error'' None, d)
                                   | Some d' \<Rightarrow>
                                      let showScore = c_showResults classData
                                      in (Reply 200
                                           (if so_isLateSubmission obj
                                            then ''Late submission recorded successfully!''
                                            else ''Quiz submitted successfully!'')
                                           (Some
                                             \<lparr>sr_score = (if showScore then Some (s_score sub) else None),
                                              sr_totalQuestions =
                                                (if showScore then Some (length (quiz_questions qz))
                                                 else None),
                                              sr_correctCount =
                                                (if showScore
                                                 then Some (fst (gradeLoop answers (quiz_questions qz) 0 []))
                                                 else None),
                                              sr_showResults = showScore,
                                              sr_isLateSubmission = so_isLateSubmission obj\<rparr>),
                                          d'))))))"

subsection \<open>getClassResults\<close>






subsection \<open>The quiz-submission consumer\<close>

text \<open>
  \<^verbatim>\<open>eachMessage\<close> of \<^verbatim>\<open>startQuizSubmissionConsumer\<close> (quizSubmissionConsumer.js, lines
  9-13). What the process can touch is the database and the console. \<open>parse\<close> is
  \<^verbatim>\<open>JSON.parse\<close>, \<open>None\<close> when it throws. The result says whether the handler returned
  normally.
\<close>

record 'j world =
  w_db :: db
  w_console :: "'j list"

definition eachMessage :: "(string \<Rightarrow> 'j option) \<Rightarrow> string \<Rightarrow> 'j world \<Rightarrow> bool \<times> 'j world" where
  "eachMessage parse message_value w =
     (case parse message_value of
        None \<Rightarrow> (False, w)
      | Some submission \<Rightarrow> (True, w\<lparr>w_console := w_console w @ [submission]\<rparr>))"

text \<open>
  \<^verbatim>\<open>consumer.run\<close> hands every delivery of the topic to \<^verbatim>\<open>eachMessage\<close>, one after
  the other; a message that is delivered again after its handler threw is one more
  entry of the list.
\<close>

fun run :: "(string \<Rightarrow> 'j option) \<Rightarrow> string list \<Rightarrow> 'j world \<Rightarrow> 'j world" where
  "run parse [] w = w"
| "run parse (m # ms) w = run parse ms (snd (eachMessage parse m w))"

subsection \<open>Example data\<close>

text \<open>
  A teacher who owns a class, a second teacher, and two enrolled candidates; the
  registration number of the first candidate is written in small letters.
\<close>

definition demo_admin :: auth_user where
  "demo_admin = \<lparr>au_id = 100, au_role = ''admin''\<rparr>"

definition demo_other_admin :: auth_user where
  "demo_other_admin = \<lparr>au_id = 101, au_role = ''admin''\<rparr>"

definition demo_candidate7 :: auth_user where
  "demo_candidate7 = \<lparr>au_id = 7, au_role = ''candidate''\<rparr>"

definition demo_candidate8 :: auth_user where
  "demo_candidate8 = \<lparr>au_id = 8, au_role = ''candidate''\<rparr>"

definition demo_candidate9 :: auth_user where
  "demo_candidate9 = \<lparr>au_id = 9, au_role = ''candidate''\<rparr>"

definition demo_users :: "user list" where
  "demo_users =
     [\<lparr>u_id = 7, u_name = ''Asha'', u_email = ''asha@example.org'',
       u_registrationNumber = ''22bce10100''\<rparr>,
      \<lparr>u_id = 8, u_name = ''Ravi'', u_email = ''ravi@example.org'',
       u_registrationNumber = ''22BCE10101''\<rparr>,
      \<lparr>u_id = 9, u_name = ''Meera'', u_email = ''meera@example.org'',
       u_registrationNumber = ''22MIM10007''\<rparr>]"

definition demo_class :: classDoc where
  "demo_class =
     \<lparr>c_id = 1, c_title = ''Algorithms'', c_courseCode = ''cs201'', c_description = [],
      c_adminId = 100, c_students = [7, 8], c_inviteCode = ''CS201-AB12CD'', c_isActive = True,
      c_semester = [], c_academicYear = [], c_allowLateSubmissions = True,
      c_autoGrading = False, c_showResults = True, c_showRosterToCandidates = False,
      c_showLeaderboardToCandidates = False\<rparr>"

definition demo_quiz :: quiz where
  "demo_quiz =
     \<lparr>quiz_id = 5, quiz_adminId = 100, quiz_title = ''Sorting'',
      quiz_questions =
        [\<lparr>q_id = 11, q_text = ''Which sort is stable?'', q_type = ''mcq'',
          q_options = [''Merge sort'', ''Heap sort''], q_answer = ''Merge sort''\<rparr>,
         \<lparr>q_id = 12, q_text = ''Name a sort that runs in place.'', q_type = ''short_answer'',
          q_options = [], q_answer = ''Heap sort''\<rparr>]\<rparr>"

definition demo_assignment :: assignment where
  "demo_assignment =
     \<lparr>a_id = 1, a_quizId = 5, a_classId = 1, a_adminId = 100, a_subgroup = ''BCE'',
      a_subclasses = [], a_dueDate = 1000, a_timeLimit = 30, a_weightage = 3,
      a_weightageType = ''percentage'', a_submissions = []\<rparr>"

definition demo_db :: db where
  "demo_db = \<lparr>classes = [demo_class], assignments = [demo_assignment],
              quizzes = [demo_quiz], users = demo_users\<rparr>"

text \<open>A request body with an answer to every question, and one with the second answer missing.\<close>

definition demo_answers_all :: submitQuiz_body where
  "demo_answers_all =
     \<lparr>sq_answers = Some [11 \<mapsto> ''Merge sort'', 12 \<mapsto> '' heap SORT ''],
      sq_tabSwitchCount = None, sq_escCount = None, sq_wasFullscreen = None,
      sq_proctoringData = None\<rparr>"

definition demo_answers_first :: submitQuiz_body where
  "demo_answers_first =
     \<lparr>sq_answers = Some [11 \<mapsto> ''Merge sort''],
      sq_tabSwitchCount = None, sq_escCount = None, sq_wasFullscreen = None,
      sq_proctoringData = None\<rparr>"




text \<open>A request of updateClass that switches late submissions off.\<close>

definition demo_update :: updateClass_body where
  "demo_update =
     \<lparr>uc_title = None, uc_courseCode = None, uc_description = None, uc_semester = None,
      uc_academicYear = None, uc_allowLateSubmissions = Some False, uc_autoGrading = None,
      uc_showResults = None, uc_showRosterToCandidates = None,
      uc_showLeaderboardToCandidates = None\<rparr>"

text \<open>A request of updateAssignment that allows a retake.\<close>

definition demo_retake :: updateAssignment_body where
  "demo_retake =
     \<lparr>ua_dueDate = Missing, ua_timeLimit = Missing, ua_weightage = Missing,
      ua_weightageType = None, ua_allowRetake = True, ua_subgroup = None,
      ua_proctoringEnabled = None\<rparr>"



subsection \<open>Notions used in the statements\<close>

text \<open>The entry that the grading loop appends for one question.\<close>

definition formattedAnswer :: "(oid \<rightharpoonup> string) \<Rightarrow> question \<Rightarrow> answer" where
  "formattedAnswer answers question =
     (case answers (q_id question) of
        Some candidateAnswer \<Rightarrow>
          if candidateAnswer \<noteq> []
          then \<lparr>ans_questionId = q_id question, ans_selectedAnswer = candidateAnswer,
                ans_isCorrect = isCorrectAnswer question candidateAnswer\<rparr>
          else \<lparr>ans_questionId = q_id question, ans_selectedAnswer = [], ans_isCorrect = False\<rparr>
      | None \<Rightarrow> \<lparr>ans_questionId = q_id question, ans_selectedAnswer = [], ans_isCorrect = False\<rparr>)"



section \<open>Properties\<close>

subsection \<open>Joining a class\<close>

lemma find_after_save_class:
  assumes "find P cs = Some c" and "P c'" and "c_id c' = c_id c"
  shows "find P (map (\<lambda>x. if c_id x = c_id c' then c' else x) cs) = Some c'"
  using assms by (induction cs) (auto split: if_splits)

lemma joinClass_success:
  assumes "inviteCode \<noteq> []" and "au_role u = ''candidate''"
    and "find (\<lambda>c. c_inviteCode c = inviteCode \<and> c_isActive c) (classes d) = Some c"
    and "au_id u \<notin> set (c_students c)"
  shows "joinClass d u inviteCode =
     (Reply 200 ''Successfully joined class!'' (Some (c\<lparr>c_students := c_students c @ [au_id u]\<rparr>)),
      save_class d (c\<lparr>c_students := c_students c @ [au_id u]\<rparr>))"
  using assms by (simp add: joinClass_def Let_def)

lemma joinClass_failure:
  assumes "\<not> (inviteCode \<noteq> [] \<and> au_role u = ''candidate'' \<and>
    (\<exists>c. find (\<lambda>c. c_inviteCode c = inviteCode \<and> c_isActive c) (classes d) = Some c
         \<and> au_id u \<notin> set (c_students c)))"
  shows "snd (joinClass d u inviteCode) = d"
    and "status (fst (joinClass d u inviteCode)) \<in> {400, 403, 404}"
  using assms by (auto simp add: joinClass_def Let_def split: option.splits)

lemma joinClass_twice:
  assumes "status (fst (joinClass d u inviteCode)) = 200"
  shows "joinClass (snd (joinClass d u inviteCode)) u inviteCode =
           (Reply 400 ''You are already enrolled in this class'' None,
            snd (joinClass d u inviteCode))"
proof -
  let ?P = "\<lambda>c. c_inviteCode c = inviteCode \<and> c_isActive c"
  from assms obtain c where c: "inviteCode \<noteq> []" "au_role u = ''candidate''"
      "find ?P (classes d) = Some c" "au_id u \<notin> set (c_students c)"
    by (auto simp add: joinClass_def Let_def split: option.splits if_splits)
  let ?c' = "c\<lparr>c_students := c_students c @ [au_id u]\<rparr>"
  have d': "snd (joinClass d u inviteCode) = save_class d ?c'"
    using c by (simp add: joinClass_success)
  have "?P c" using c(3) by (auto simp: find_Some_iff)
  then have "?P ?c'" by simp
  then have "find ?P (classes (save_class d ?c')) = Some ?c'"
    using find_after_save_class[OF c(3), of ?c'] by (simp add: save_class_def)
  then show ?thesis
    unfolding d' using c(1,2) by (simp add: joinClass_def)
qed

text \<open>
  With distinct class ids, saving the joined class changes the student list of that
  class and of no other.
\<close>

lemma students_after_save_class:
  assumes "distinct (map c_id cs)" and "c \<in> set cs"
  shows "map c_students (map (\<lambda>x. if c_id x = c_id c then c\<lparr>c_students := ss\<rparr> else x) cs)
         = map (\<lambda>x. if x = c then ss else c_students x) cs"
proof -
  from assms(1) have "inj_on c_id (set cs)" by (simp add: distinct_map)
  with assms(2) have "\<And>x. x \<in> set cs \<Longrightarrow> c_id x = c_id c \<longleftrightarrow> x = c"
    by (auto dest: inj_onD)
  then show ?thesis by (simp cong: map_cong)
qed

text \<open>
  C6. joinClass answers 200 and appends the user to the students of the class found by
  the invite code exactly when the request has an invite code, the role is
  \<open>candidate\<close>, an active class with the code is found and the user is not among its
  students. In every other case it answers an error and the database is unchanged. A
  second join after a successful one is refused as already enrolled.
\<close>

theorem joinClass_exactly_when:
  "(\<forall>c. inviteCode \<noteq> [] \<and> au_role u = ''candidate''
        \<and> find (\<lambda>c. c_inviteCode c = inviteCode \<and> c_isActive c) (classes d) = Some c
        \<and> au_id u \<notin> set (c_students c)
      \<longrightarrow> status (fst (joinClass d u inviteCode)) = 200
          \<and> classes (snd (joinClass d u inviteCode)) =
              map (\<lambda>x. if c_id x = c_id c then c\<lparr>c_students := c_students c @ [au_id u]\<rparr> else x)
                (classes d)
          \<and> (distinct (map c_id (classes d)) \<longrightarrow>
               map c_students (classes (snd (joinClass d u inviteCode))) =
               map (\<lambda>x. if x = c then c_students c @ [au_id u] else c_students x) (classes d))
          \<and> assignments (snd (joinClass d u inviteCode)) = assignments d)
   \<and> (\<not> (inviteCode \<noteq> [] \<and> au_role u = ''candidate''
          \<and> (\<exists>c. find (\<lambda>c. c_inviteCode c = inviteCode \<and> c_isActive c) (classes d) = Some c
                 \<and> au_id u \<notin> set (c_students c)))
      \<longrightarrow> status (fst (joinClass d u inviteCode)) \<in> {400, 403, 404}
          \<and> snd (joinClass d u inviteCode) = d)
   \<and> (status (fst (joinClass d u inviteCode)) = 200
      \<longrightarrow> joinClass (snd (joinClass d u inviteCode)) u inviteCode =
            (Reply 400 ''You are already enrolled in this class'' None,
             snd (joinClass d u inviteCode)))"
proof (intro conjI allI impI)
  fix c
  assume h: "inviteCode \<noteq> [] \<and> au_role u = ''candidate''
        \<and> find (\<lambda>c. c_inviteCode c = inviteCode \<and> c_isActive c) (classes d) = Some c
        \<and> au_id u \<notin> set (c_students c)"
  then have eq: "joinClass d u inviteCode =
     (Reply 200 ''Successfully joined class!'' (Some (c\<lparr>c_students := c_students c @ [au_id u]\<rparr>)),
      save_class d (c\<lparr>c_students := c_students c @ [au_id u]\<rparr>))"
    by (simp add: joinClass_success)
  show "status (fst (joinClass d u inviteCode)) = 200" by (simp add: eq)
  show "classes (snd (joinClass d u inviteCode)) =
      map (\<lambda>x. if c_id x = c_id c then c\<lparr>c_students := c_students c @ [au_id u]\<rparr> else x) (classes d)"
    by (simp add: eq save_class_def)
  show "assignments (snd (joinClass d u inviteCode)) = assignments d"
    by (simp add: eq save_class_def)
  assume dist: "distinct (map c_id (classes d))"
  from h have "c \<in> set (classes d)" by (auto simp: find_Some_iff)
  with dist show "map c_students (classes (snd (joinClass d u inviteCode))) =
      map (\<lambda>x. if x = c then c_students c @ [au_id u] else c_students x) (classes d)"
    using students_after_save_class[of "classes d" c "c_students c @ [au_id u]"]
    by (simp add: eq save_class_def)
next
  assume "\<not> (inviteCode \<noteq> [] \<and> au_role u = ''candidate''
          \<and> (\<exists>c. find (\<lambda>c. c_inviteCode c = inviteCode \<and> c_isActive c) (classes d) = Some c
                 \<and> au_id u \<notin> set (c_students c)))"
  then show "status (fst (joinClass d u inviteCode)) \<in> {400, 403, 404}"
    and "snd (joinClass d u inviteCode) = d"
    using joinClass_failure[of inviteCode u d] by blast+
next
  assume "status (fst (joinClass d u inviteCode)) = 200"
  then show "joinClass (snd (joinClass d u inviteCode)) u inviteCode =
            (Reply 400 ''You are already enrolled in this class'' None,
             snd (joinClass d u inviteCode))"
    by (rule joinClass_twice)
qed

text \<open>
  In the example class a new candidate joins and is refused the second time; an enrolled
  candidate, a teacher and a wrong code are refused and nothing changes.
\<close>

theorem joinClass_exactly_when_witness:
  "find (\<lambda>c. c_inviteCode c = ''CS201-AB12CD'' \<and> c_isActive c) (classes demo_db) = Some demo_class
   \<and> au_id demo_candidate9 \<notin> set (c_students demo_class)
   \<and> status (fst (joinClass demo_db demo_candidate9 ''CS201-AB12CD'')) = 200
   \<and> map c_students (classes (snd (joinClass demo_db demo_candidate9 ''CS201-AB12CD''))) = [[7, 8, 9]]
   \<and> joinClass (snd (joinClass demo_db demo_candidate9 ''CS201-AB12CD'')) demo_candidate9 ''CS201-AB12CD''
       = (Reply 400 ''You are already enrolled in this class'' None,
          snd (joinClass demo_db demo_candidate9 ''CS201-AB12CD''))
   \<and> snd (joinClass demo_db demo_candidate8 ''CS201-AB12CD'') = demo_db
   \<and> snd (joinClass demo_db demo_admin ''CS201-AB12CD'') = demo_db
   \<and> snd (joinClass demo_db demo_candidate9 ''CS201-XXXXXX'') = demo_db
   \<and> snd (joinClass demo_db demo_candidate9 []) = demo_db"
proof -
  note demo_defs = demo_db_def demo_class_def demo_candidate8_def demo_candidate9_def
    demo_admin_def
  have f: "find (\<lambda>c. c_inviteCode c = ''CS201-AB12CD'' \<and> c_isActive c) (classes demo_db)
             = Some demo_class"
    by (simp add: demo_defs)
  have n: "au_id demo_candidate9 \<notin> set (c_students demo_class)"
    by (simp add: demo_defs)
  have r: "au_role demo_candidate9 = ''candidate''" by (simp add: demo_defs)
  have dist: "distinct (map c_id (classes demo_db))" by (simp add: demo_defs)
  note ok = joinClass_exactly_when[of "''CS201-AB12CD''" demo_candidate9 demo_db,
      THEN conjunct1, rule_format, of demo_class]
  have s: "status (fst (joinClass demo_db demo_candidate9 ''CS201-AB12CD'')) = 200"
    using ok f n r by simp
  have m: "map c_students (classes (snd (joinClass demo_db demo_candidate9 ''CS201-AB12CD'')))
             = [[7, 8, 9]]"
    using ok f n r dist by (simp add: demo_defs)
  have again: "joinClass (snd (joinClass demo_db demo_candidate9 ''CS201-AB12CD'')) demo_candidate9
        ''CS201-AB12CD'' = (Reply 400 ''You are already enrolled in this class'' None,
          snd (joinClass demo_db demo_candidate9 ''CS201-AB12CD''))"
    using joinClass_exactly_when[of "''CS201-AB12CD''" demo_candidate9 demo_db] s by blast
  have e8: "snd (joinClass demo_db demo_candidate8 ''CS201-AB12CD'') = demo_db"
    using joinClass_exactly_when[of "''CS201-AB12CD''" demo_candidate8 demo_db] f
    by (simp add: demo_defs)
  have ea: "snd (joinClass demo_db demo_admin ''CS201-AB12CD'') = demo_db"
    using joinClass_exactly_when[of "''CS201-AB12CD''" demo_admin demo_db]
    by (simp add: demo_defs)
  have ex: "snd (joinClass demo_db demo_candidate9 ''CS201-XXXXXX'') = demo_db"
    using joinClass_exactly_when[of "''CS201-XXXXXX''" demo_candidate9 demo_db]
    by (simp add: demo_defs)
  have en: "snd (joinClass demo_db demo_candidate9 []) = demo_db"
    using joinClass_exactly_when[of "[]" demo_candidate9 demo_db] by simp
  from f n s m again e8 ea ex en show ?thesis by blast
qed

subsection \<open>Requests of a user who is not the owner\<close>

lemma updateClass_not_owner:
  assumes "findClassById d i = Some c" and "c_adminId c \<noteq> au_id u"
  shows "updateClass d u i ub =
    (Reply 403 ''Not authorized to update this class. Only the class creator can update it.'' None, d)"
  using assms by (simp add: updateClass_def)

lemma deleteClass_not_owner:
  assumes "findClassById d i = Some c" and "c_adminId c \<noteq> au_id u"
  shows "deleteClass d u i =
    (Reply 403 ''Not authorized to delete this class. Only the class creator can delete it.'' None, d)"
  using assms by (simp add: deleteClass_def)

lemma removeStudentFromClass_not_owner:
  assumes "findClassById d i = Some c" and "c_adminId c \<noteq> au_id u"
  shows "removeStudentFromClass d u i studentId =
    (case studentId of
       None \<Rightarrow> (Reply 400 ''Student ID is required'' None, d)
     | Some sid \<Rightarrow> (Reply 403
         ''Not authorized to modify this class. Only the class creator can remove students.''
         None, d))"
  using assms by (simp add: removeStudentFromClass_def split: option.split)

lemma updateAssignment_not_owner:
  assumes "findAssignmentById d i = Some a" and "a_adminId a \<noteq> au_id u"
  shows "updateAssignment d u i ab = (Reply 403 ''Not authorized to update this assignment'' None, d)"
  using assms by (simp add: updateAssignment_def)

lemma deleteAssignment_not_owner:
  assumes "findAssignmentById d i = Some a" and "a_adminId a \<noteq> au_id u"
  shows "deleteAssignment d u i = (Reply 403 ''Not authorized to delete this assignment'' None, d)"
  using assms by (simp add: deleteAssignment_def)

text \<open>
  C7, as the code has it. When the user is not the one recorded in \<^verbatim>\<open>adminId\<close> of the
  class (of the assignment), updateClass, deleteClass, updateAssignment and
  deleteAssignment answer 403 and the database is unchanged. removeStudentFromClass
  leaves the database unchanged too; it answers 403 when the request names a student
  and 400 when it does not, because it checks \<^verbatim>\<open>studentId\<close> before it loads the class.
\<close>

theorem non_owner_is_refused:
  "(\<forall>c. findClassById d i = Some c \<and> c_adminId c \<noteq> au_id u \<longrightarrow>
        status (fst (updateClass d u i ub)) = 403 \<and> snd (updateClass d u i ub) = d
      \<and> status (fst (deleteClass d u i)) = 403 \<and> snd (deleteClass d u i) = d
      \<and> status (fst (removeStudentFromClass d u i studentId))
          = (if studentId = None then 400 else 403)
      \<and> snd (removeStudentFromClass d u i studentId) = d)
   \<and> (\<forall>a. findAssignmentById d i = Some a \<and> a_adminId a \<noteq> au_id u \<longrightarrow>
        status (fst (updateAssignment d u i ab)) = 403 \<and> snd (updateAssignment d u i ab) = d
      \<and> status (fst (deleteAssignment d u i)) = 403 \<and> snd (deleteAssignment d u i) = d)"
  by (auto simp add: updateClass_not_owner deleteClass_not_owner removeStudentFromClass_not_owner
        updateAssignment_not_owner deleteAssignment_not_owner split: option.split)

theorem non_owner_is_refused_witness:
  "findClassById demo_db 1 = Some demo_class \<and> c_adminId demo_class \<noteq> au_id demo_other_admin
   \<and> findAssignmentById demo_db 1 = Some demo_assignment
   \<and> a_adminId demo_assignment \<noteq> au_id demo_other_admin
   \<and> status (fst (updateClass demo_db demo_other_admin 1 demo_update)) = 403
   \<and> snd (updateClass demo_db demo_other_admin 1 demo_update) = demo_db
   \<and> status (fst (deleteClass demo_db demo_other_admin 1)) = 403
   \<and> snd (deleteClass demo_db demo_other_admin 1) = demo_db
   \<and> status (fst (removeStudentFromClass demo_db demo_other_admin 1 (Some 8))) = 403
   \<and> snd (removeStudentFromClass demo_db demo_other_admin 1 (Some 8)) = demo_db
   \<and> status (fst (updateAssignment demo_db demo_other_admin 1 demo_retake)) = 403
   \<and> snd (updateAssignment demo_db demo_other_admin 1 demo_retake) = demo_db
   \<and> status (fst (deleteAssignment demo_db demo_other_admin 1)) = 403
   \<and> snd (deleteAssignment demo_db demo_other_admin 1) = demo_db"
proof -
  note demo_defs = demo_db_def demo_class_def demo_assignment_def demo_other_admin_def
  have c: "findClassById demo_db 1 = Some demo_class \<and> c_adminId demo_class \<noteq> au_id demo_other_admin"
    by (simp add: findClassById_def demo_defs)
  have a: "findAssignmentById demo_db 1 = Some demo_assignment
           \<and> a_adminId demo_assignment \<noteq> au_id demo_other_admin"
    by (simp add: findAssignmentById_def demo_defs)
  from c a
    non_owner_is_refused[of demo_db 1 demo_other_admin demo_update "Some 8" demo_retake,
      THEN conjunct1, rule_format, of demo_class]
    non_owner_is_refused[of demo_db 1 demo_other_admin demo_update "Some 8" demo_retake,
      THEN conjunct2, rule_format, of demo_assignment]
  show ?thesis by simp
qed

text \<open>
  The claim as it was stated, 403 for every one of the five handlers, fails for
  removeStudentFromClass: the second teacher, who does not own the example class, sends
  no \<^verbatim>\<open>studentId\<close> and gets 400.
\<close>

theorem removeStudentFromClass_not_owner_400:
  "findClassById demo_db 1 = Some demo_class
   \<and> c_adminId demo_class \<noteq> au_id demo_other_admin
   \<and> removeStudentFromClass demo_db demo_other_admin 1 None
       = (Reply 400 ''Student ID is required'' None, demo_db)"
  by (simp add: removeStudentFromClass_def findClassById_def demo_db_def demo_class_def
        demo_other_admin_def)

subsection \<open>The consumer\<close>

lemma eachMessage_db: "w_db (snd (eachMessage parse m w)) = w_db w"
  by (simp add: eachMessage_def split: option.split)

lemma eachMessage_console:
  "w_console (snd (eachMessage parse m w)) = w_console w @ List.map_filter parse [m]"
  by (simp add: eachMessage_def List.map_filter_simps split: option.split)

lemma run_db: "w_db (run parse ms w) = w_db w"
  by (induction ms arbitrary: w) (simp_all add: eachMessage_db)

lemma run_console: "w_console (run parse ms w) = w_console w @ List.map_filter parse ms"
  by (induction ms arbitrary: w)
     (simp_all add: eachMessage_def List.map_filter_simps split: option.split)

text \<open>
  C10. Handling a message of the topic leaves the database as it was, whatever the
  message is: the handler parses it and, when it parses, prints the parsed value. The
  same holds for any sequence of deliveries.
\<close>

theorem consumer_changes_no_application_state:
  "w_db (snd (eachMessage parse m w)) = w_db w
   \<and> w_console (snd (eachMessage parse m w)) = w_console w @ List.map_filter parse [m]
   \<and> w_db (run parse ms w) = w_db w
   \<and> w_console (run parse ms w) = w_console w @ List.map_filter parse ms"
  by (simp add: eachMessage_db eachMessage_console run_db run_console)

subsection \<open>The questions sent to a candidate\<close>

lemma mset_shuffle_from: "n < length xs \<Longrightarrow> mset (shuffle_from rnd n xs) = mset xs"
proof (induction n arbitrary: xs)
  case 0
  then show ?case by simp
next
  case (Suc n)
  let ?j = "rnd (Suc n) mod (Suc n + 1)"
  have j: "?j < length xs" using Suc.prems
    by (metis Suc_eq_plus1 less_Suc_eq_le mod_less_divisor order_le_less_trans zero_less_Suc)
  have "mset (xs[Suc n := xs ! ?j, ?j := xs ! Suc n]) = mset xs"
    using Suc.prems j by (simp add: mset_swap)
  moreover have "n < length (xs[Suc n := xs ! ?j, ?j := xs ! Suc n])"
    using Suc.prems by simp
  ultimately show ?case using Suc.IH by (simp add: Let_def)
qed

lemma mset_shuffle: "mset (shuffle rnd xs) = mset xs"
  by (cases xs) (simp_all add: shuffle_def mset_shuffle_from)

lemma questionWithoutAnswer_toObject:
  "questionWithoutAnswer (question_toObject q) =
     [(''_id'', JId (q_id q)), (''text'', JStr (q_text q)), (''type'', JStr (q_type q)),
      (''options'', JStrs (q_options q))]"
  by (simp add: questionWithoutAnswer_def question_toObject_def)

lemma getSingleAssignment_200:
  assumes "status (getSingleAssignment d u rnd now i) = 200"
  shows "\<exists>a qz. findAssignmentById d i = Some a \<and> findQuizById d (a_quizId a) = Some qz
           \<and> au_role u = ''candidate'' \<and> subgroupAllows d (au_id u) a
           \<and> (\<exists>r. payload (getSingleAssignment d u rnd now i) = Some r
                \<and> sa_questions r = map (\<lambda>q. questionWithoutAnswer (question_toObject q))
                                      (shuffle rnd (quiz_questions qz)))"
  using assms
  by (auto simp add: getSingleAssignment_def Let_def split: if_splits option.splits)

text \<open>
  C8. When getSingleAssignment answers 200, no question of the payload has a field
  \<^verbatim>\<open>answer\<close>, and the questions are those of the quiz, each with its \<^verbatim>\<open>_id\<close>,
  \<^verbatim>\<open>text\<close>, \<^verbatim>\<open>type\<close> and \<^verbatim>\<open>options\<close>, in some order.
\<close>

theorem getSingleAssignment_sends_no_answer:
  "status (getSingleAssignment d u rnd now i) = 200 \<Longrightarrow>
     \<exists>r a qz. payload (getSingleAssignment d u rnd now i) = Some r
       \<and> findAssignmentById d i = Some a \<and> findQuizById d (a_quizId a) = Some qz
       \<and> (\<forall>obj \<in> set (sa_questions r). ''answer'' \<notin> fst ` set obj)
       \<and> mset (sa_questions r) =
           mset (map (\<lambda>q. [(''_id'', JId (q_id q)), (''text'', JStr (q_text q)),
                            (''type'', JStr (q_type q)), (''options'', JStrs (q_options q))])
                   (quiz_questions qz))"
proof -
  assume "status (getSingleAssignment d u rnd now i) = 200"
  from getSingleAssignment_200[OF this] obtain a qz r where
    a: "findAssignmentById d i = Some a" and qz: "findQuizById d (a_quizId a) = Some qz"
    and r: "payload (getSingleAssignment d u rnd now i) = Some r"
    and qs: "sa_questions r = map (\<lambda>q. questionWithoutAnswer (question_toObject q))
                                 (shuffle rnd (quiz_questions qz))"
    by blast
  have "\<forall>obj \<in> set (sa_questions r). ''answer'' \<notin> fst ` set obj"
    by (auto simp add: qs questionWithoutAnswer_toObject)
  moreover have "mset (sa_questions r) =
      mset (map (\<lambda>q. [(''_id'', JId (q_id q)), (''text'', JStr (q_text q)),
                       (''type'', JStr (q_type q)), (''options'', JStrs (q_options q))])
              (quiz_questions qz))"
    by (simp add: qs questionWithoutAnswer_toObject mset_shuffle)
  ultimately show ?thesis using a qz r by blast
qed


text \<open>
  The second candidate of the example opens the assignment: the two questions arrive
  in the other order (the draw is 0), each with its four fields and without the answer.
\<close>

theorem getSingleAssignment_sends_no_answer_witness:
  "status (getSingleAssignment demo_db demo_candidate8 (\<lambda>i. 0) 500 1) = 200
   \<and> map (map fst) (sa_questions (the (payload
          (getSingleAssignment demo_db demo_candidate8 (\<lambda>i. 0) 500 1))))
       = [[''_id'', ''text'', ''type'', ''options''], [''_id'', ''text'', ''type'', ''options'']]
   \<and> map (\<lambda>obj. map_of obj ''_id'') (sa_questions (the (payload
          (getSingleAssignment demo_db demo_candidate8 (\<lambda>i. 0) 500 1))))
       = [Some (JId 12), Some (JId 11)]"
proof -
  let ?g = "getSingleAssignment demo_db demo_candidate8 (\<lambda>i. 0) 500 1"
  have s: "status ?g = 200" by code_simp
  have a: "findAssignmentById demo_db 1 = Some demo_assignment" by code_simp
  have q: "findQuizById demo_db (a_quizId demo_assignment) = Some demo_quiz" by code_simp
  from getSingleAssignment_sends_no_answer[OF s] a q obtain r where
    r: "payload ?g = Some r"
    and na: "\<forall>obj \<in> set (sa_questions r). ''answer'' \<notin> fst ` set obj"
    and ms: "mset (sa_questions r) =
           mset (map (\<lambda>q. [(''_id'', JId (q_id q)), (''text'', JStr (q_text q)),
                            (''type'', JStr (q_type q)), (''options'', JStrs (q_options q))])
                   (quiz_questions demo_quiz))"
    by auto
  have len: "length (sa_questions r) = 2"
    using arg_cong[OF ms, of size] by (simp add: demo_quiz_def)
  have ids: "map (\<lambda>obj. map_of obj ''_id'') (sa_questions (the (payload ?g)))
               = [Some (JId 12), Some (JId 11)]"
    by code_simp
  have keys: "map (map fst) (sa_questions (the (payload ?g)))
               = [[''_id'', ''text'', ''type'', ''options''], [''_id'', ''text'', ''type'', ''options'']]"
    by code_simp
  from s keys ids na len show ?thesis by simp
qed

subsection \<open>One submission per candidate\<close>



























subsection \<open>Grading and storing a submission\<close>

lemma gradeLoop_eq:
  "gradeLoop answers qs score formattedAnswers =
     (score + length (filter ans_isCorrect (map (formattedAnswer answers) qs)),
      formattedAnswers @ map (formattedAnswer answers) qs)"
  by (induction qs arbitrary: score formattedAnswers)
     (auto simp add: formattedAnswer_def Let_def split: option.split)

lemma formattedAnswer_answered:
  assumes "answers (q_id q) = Some c" and "c \<noteq> []"
  shows "formattedAnswer answers q =
     \<lparr>ans_questionId = q_id q, ans_selectedAnswer = c,
      ans_isCorrect = (if q_type q = ''short_answer''
                       then toLowerCase (trim c) = toLowerCase (trim (q_answer q))
                       else c = q_answer q)\<rparr>"
  using assms by (simp add: formattedAnswer_def isCorrectAnswer_def)

lemma formattedAnswer_unanswered:
  assumes "answers (q_id q) = None \<or> answers (q_id q) = Some []"
  shows "formattedAnswer answers q =
     \<lparr>ans_questionId = q_id q, ans_selectedAnswer = [], ans_isCorrect = False\<rparr>"
  using assms by (auto simp add: formattedAnswer_def)

lemma formattedAnswer_valid:
  "answer_valid (formattedAnswer answers q) \<longleftrightarrow> (\<exists>c. answers (q_id q) = Some c \<and> c \<noteq> [])"
  by (auto simp add: formattedAnswer_def answer_valid_def split: option.split)

lemma percentageScore_eq:
  "percentageScore score n =
     (if n = 0 then None else Some (fl (fl (of_nat score / of_nat n) * 100)))"
  by (simp add: percentageScore_def js_div_def js_mul_def)

lemma submissionObject_eq:
  "submissionObject u now a qz sb answers =
     \<lparr>so_candidateId = au_id u,
      so_score = percentageScore
        (length (filter ans_isCorrect (map (formattedAnswer answers) (quiz_questions qz))))
        (length (quiz_questions qz)),
      so_submittedAt = now,
      so_isLateSubmission = (a_dueDate a < now),
      so_tabSwitchCount = (case sq_tabSwitchCount sb of Some n \<Rightarrow> n | None \<Rightarrow> 0),
      so_escCount = (case sq_escCount sb of Some n \<Rightarrow> n | None \<Rightarrow> 0),
      so_wasFullscreen = (case sq_wasFullscreen sb of Some f \<Rightarrow> f | None \<Rightarrow> False),
      so_answers = map (formattedAnswer answers) (quiz_questions qz),
      so_proctoringData = sq_proctoringData sb\<rparr>"
  by (simp add: submissionObject_def gradeLoop_eq)

text \<open>
  What an accepted submission stores (the part of C1 that the code keeps): the score is
  \<open>(correct / total) * 100\<close> in double arithmetic, where an answer counts as correct
  by the comparison of \<open>formattedAnswer\<close>; the quiz has a question, and every question
  has a non-empty answer in the request.
\<close>

lemma submitQuiz_accepted:
  assumes "status (fst (submitQuiz d u now i sb)) = 200"
  shows "\<exists>a qz answers.
      findAssignmentById d i = Some a \<and> findQuizById d (a_quizId a) = Some qz
      \<and> sq_answers sb = Some answers \<and> quiz_questions qz \<noteq> []
      \<and> (\<forall>q \<in> set (quiz_questions qz). \<exists>c. answers (q_id q) = Some c \<and> c \<noteq> [])
      \<and> assignments (snd (submitQuiz d u now i sb)) =
          map (\<lambda>x. if a_id x = a_id a
                 then a\<lparr>a_submissions := a_submissions a @
                   [\<lparr>s_candidateId = au_id u,
                     s_score = fl (fl (of_nat (length (filter ans_isCorrect
                                  (map (formattedAnswer answers) (quiz_questions qz))))
                                / of_nat (length (quiz_questions qz))) * 100),
                     s_submittedAt = now,
                     s_answers = map (formattedAnswer answers) (quiz_questions qz)\<rparr>]\<rparr>
                 else x) (assignments d)"
proof -
  note defs = submitQuiz_def
  obtain a where a: "findAssignmentById d i = Some a"
    using assms by (cases "findAssignmentById d i") (simp_all add: defs)
  obtain classData where c:
    "find (\<lambda>c. c_id c = a_classId a \<and> au_id u \<in> set (c_students c)) (classes d) = Some classData"
    using assms a
    by (cases "find (\<lambda>c. c_id c = a_classId a \<and> au_id u \<in> set (c_students c)) (classes d)")
       (simp_all add: defs)
  have e: "find (\<lambda>sub. s_candidateId sub = au_id u) (a_submissions a) = None"
    using assms a c by (simp add: defs split: if_splits)
  have l: "\<not> (a_dueDate a < now \<and> \<not> c_allowLateSubmissions classData)"
    using assms a c e by (simp add: defs split: if_splits)
  obtain qz where qz: "findQuizById d (a_quizId a) = Some qz"
    using assms a c e l by (cases "findQuizById d (a_quizId a)") (simp_all add: defs)
  have ans: "\<not> (sq_answers sb = None \<and> quiz_questions qz \<noteq> [])"
    using assms a c e l qz by (simp add: defs split: if_splits)
  obtain sub where cast: "submissionSchema_cast (submissionObject u now a qz sb
                 (case sq_answers sb of Some m \<Rightarrow> m | None \<Rightarrow> Map.empty)) = Some sub"
    using assms a c e l qz ans
    by (cases "submissionSchema_cast (submissionObject u now a qz sb
                 (case sq_answers sb of Some m \<Rightarrow> m | None \<Rightarrow> Map.empty))")
       (simp_all add: defs Let_def)
  obtain d' where save: "save_assignment d (a\<lparr>a_submissions := a_submissions a @ [sub]\<rparr>) = Some d'"
    using assms a c e l qz ans cast
    by (cases "save_assignment d (a\<lparr>a_submissions := a_submissions a @ [sub]\<rparr>)")
       (simp_all add: defs Let_def)
  have d': "snd (submitQuiz d u now i sb) = d'"
    using a c e l qz ans cast save by (auto simp add: defs Let_def)
  let ?answers = "case sq_answers sb of Some m \<Rightarrow> m | None \<Rightarrow> Map.empty"
  let ?qs = "quiz_questions qz"
  from cast have ne: "?qs \<noteq> []"
    by (auto simp add: submissionSchema_cast_def submissionObject_eq percentageScore_eq
          split: option.splits if_splits)
  with ans obtain answers where answers: "sq_answers sb = Some answers" by auto
  from cast ne answers have sub: "sub =
      \<lparr>s_candidateId = au_id u,
       s_score = fl (fl (of_nat (length (filter ans_isCorrect (map (formattedAnswer answers) ?qs)))
                       / of_nat (length ?qs)) * 100),
       s_submittedAt = now, s_answers = map (formattedAnswer answers) ?qs\<rparr>"
    by (auto simp add: submissionSchema_cast_def submissionObject_eq percentageScore_eq
          split: option.splits)
  from save have valid: "submission_valid sub"
    by (auto simp add: save_assignment_def assignment_valid_def split: if_splits)
  then have all: "\<forall>q \<in> set ?qs. \<exists>c. answers (q_id q) = Some c \<and> c \<noteq> []"
    by (simp add: sub submission_valid_def list_all_iff formattedAnswer_valid)
  from save have "assignments d' =
      map (\<lambda>x. if a_id x = a_id a then a\<lparr>a_submissions := a_submissions a @ [sub]\<rparr> else x)
        (assignments d)"
    by (auto simp add: save_assignment_def split: if_splits)
  with a qz answers ne all sub d' show ?thesis by auto
qed

text \<open>
  C1 at the request that leaves the second question of the example quiz unanswered.
  The handler builds the entry \<^verbatim>\<open>{selectedAnswer: '', isCorrect: false}\<close> for it, as the
  claim says, but nothing is recorded: \<^verbatim>\<open>selectedAnswer\<close> is a required string of
  \<^verbatim>\<open>answerSchema\<close>, the empty string does not pass, and the request ends in 500 with
  the database unchanged.
\<close>

theorem submitQuiz_unanswered_question_is_not_recorded:
  "so_answers (submissionObject demo_candidate8 500 demo_assignment demo_quiz demo_answers_first
       [11 \<mapsto> ''Merge sort''])
     = [\<lparr>ans_questionId = 11, ans_selectedAnswer = ''Merge sort'', ans_isCorrect = True\<rparr>,
        \<lparr>ans_questionId = 12, ans_selectedAnswer = [], ans_isCorrect = False\<rparr>]
   \<and> submitQuiz demo_db demo_candidate8 500 1 demo_answers_first
       = (Reply 500 ''Server error'' None, demo_db)"
  by code_simp

subsection \<open>Late submissions\<close>







subsection \<open>Anti-cheat fields\<close>

text \<open>The database after submitQuiz does not depend on the anti-cheat fields of the request.\<close>

lemma submitQuiz_ignores_telemetry:
  "snd (submitQuiz d u now i
          (sb\<lparr>sq_tabSwitchCount := t, sq_escCount := e, sq_wasFullscreen := f,
              sq_proctoringData := p\<rparr>))
   = snd (submitQuiz d u now i sb)"
proof -
  let ?sb = "sb\<lparr>sq_tabSwitchCount := t, sq_escCount := e, sq_wasFullscreen := f,
                sq_proctoringData := p\<rparr>"
  have 1: "sq_answers ?sb = sq_answers sb" by simp
  have 2: "submissionSchema_cast (submissionObject u now a qz ?sb answers)
           = submissionSchema_cast (submissionObject u now a qz sb answers)" for a qz answers
    by (simp add: submissionObject_eq submissionSchema_cast_def split: option.split)
  have 3: "so_isLateSubmission (submissionObject u now a qz ?sb answers)
           = so_isLateSubmission (submissionObject u now a qz sb answers)" for a qz answers
    by (simp add: submissionObject_eq)
  have "submitQuiz d u now i ?sb = submitQuiz d u now i sb"
    by (simp only: submitQuiz_def Let_def 1 2 3)
  then show ?thesis by simp
qed

text \<open>
  C4 at a submission to the example assignment with \<^verbatim>\<open>tabSwitchCount\<close> 3, \<^verbatim>\<open>escCount\<close> 2
  and \<^verbatim>\<open>wasFullscreen\<close> true. The handler puts the three values into the object it
  pushes, and the request is accepted; the database afterwards is the one that the same
  request without the three fields produces, because \<^verbatim>\<open>submissionSchema\<close> declares none
  of them.
\<close>

theorem submitQuiz_telemetry_is_not_stored:
  "so_tabSwitchCount (submissionObject demo_candidate8 500 demo_assignment demo_quiz
       (demo_answers_all\<lparr>sq_tabSwitchCount := Some 3, sq_escCount := Some 2,
                          sq_wasFullscreen := Some True\<rparr>)
       [11 \<mapsto> ''Merge sort'', 12 \<mapsto> '' heap SORT '']) = 3
   \<and> status (fst (submitQuiz demo_db demo_candidate8 500 1
        (demo_answers_all\<lparr>sq_tabSwitchCount := Some 3, sq_escCount := Some 2,
                           sq_wasFullscreen := Some True\<rparr>))) = 200
   \<and> snd (submitQuiz demo_db demo_candidate8 500 1
        (demo_answers_all\<lparr>sq_tabSwitchCount := Some 3, sq_escCount := Some 2,
                           sq_wasFullscreen := Some True\<rparr>))
     = snd (submitQuiz demo_db demo_candidate8 500 1 demo_answers_all)
   \<and> a_submissions (hd (assignments (snd (submitQuiz demo_db demo_candidate8 500 1
        (demo_answers_all\<lparr>sq_tabSwitchCount := Some 3, sq_escCount := Some 2,
                           sq_wasFullscreen := Some True\<rparr>)))))
     = [\<lparr>s_candidateId = 8, s_score = 100, s_submittedAt = 500,
         s_answers =
           [\<lparr>ans_questionId = 11, ans_selectedAnswer = ''Merge sort'', ans_isCorrect = True\<rparr>,
            \<lparr>ans_questionId = 12, ans_selectedAnswer = '' heap SORT '', ans_isCorrect = True\<rparr>]\<rparr>]"
  by code_simp

subsection \<open>Branch eligibility\<close>

lemma isDigit_not_isUpperAZ: "isDigit c \<Longrightarrow> \<not> isUpperAZ c"
  by (auto simp add: isDigit_def isUpperAZ_def)

text \<open>
  \<open>match_anchored n\<close> accepts exactly the strings that the pattern describes: \<open>n\<close>
  digits, the group of two to four capital letters, one or more digits.
\<close>

lemma match_anchored_iff:
  "match_anchored n s = Some b \<longleftrightarrow>
     (\<exists>ds ts. s = ds @ b @ ts \<and> length ds = n \<and> list_all isDigit ds \<and> list_all isUpperAZ b
        \<and> 2 \<le> length b \<and> length b \<le> 4 \<and> ts \<noteq> [] \<and> list_all isDigit ts)"
proof
  assume m: "match_anchored n s = Some b"
  let ?rest = "drop n s"
  from m have b: "b = takeWhile isUpperAZ ?rest"
    and c: "length (take n s) = n" "list_all isDigit (take n s)" "2 \<le> length b" "length b \<le> 4"
      "dropWhile isUpperAZ ?rest \<noteq> []" "list_all isDigit (dropWhile isUpperAZ ?rest)"
    by (auto simp add: match_anchored_def Let_def split: if_splits)
  have "s = take n s @ b @ dropWhile isUpperAZ ?rest" by (simp add: b)
  moreover have "list_all isUpperAZ b"
    by (simp add: b list_all_iff) (meson set_takeWhileD)
  ultimately show "\<exists>ds ts. s = ds @ b @ ts \<and> length ds = n \<and> list_all isDigit ds
      \<and> list_all isUpperAZ b \<and> 2 \<le> length b \<and> length b \<le> 4 \<and> ts \<noteq> [] \<and> list_all isDigit ts"
    using c by blast
next
  assume "\<exists>ds ts. s = ds @ b @ ts \<and> length ds = n \<and> list_all isDigit ds \<and> list_all isUpperAZ b
        \<and> 2 \<le> length b \<and> length b \<le> 4 \<and> ts \<noteq> [] \<and> list_all isDigit ts"
  then obtain ds ts where s: "s = ds @ b @ ts" and ds: "length ds = n" "list_all isDigit ds"
    and b: "list_all isUpperAZ b" "2 \<le> length b" "length b \<le> 4"
    and ts: "ts \<noteq> []" "list_all isDigit ts"
    by blast
  from ts obtain t ts' where t: "ts = t # ts'" "isDigit t" by (cases ts) auto
  then have nt: "\<not> isUpperAZ t" by (simp add: isDigit_not_isUpperAZ)
  have tw: "takeWhile isUpperAZ (b @ ts) = b"
    using b(1) nt t(1) by (simp add: list_all_iff takeWhile_append2)
  have dw: "dropWhile isUpperAZ (b @ ts) = ts"
    using b(1) nt t(1) by (simp add: list_all_iff dropWhile_append2)
  have td: "take n s = ds" "drop n s = b @ ts"
    using ds(1) by (simp_all add: s)
  show "match_anchored n s = Some b"
    unfolding match_anchored_def td tw dw Let_def using ds b ts by simp
qed

text \<open>
  What the unanchored pattern returns is a run of two to four capital letters of the
  string; it returns nothing exactly when no two capital letters follow each other.
\<close>

lemma match_unanchored_Some:
  "match_unanchored s = Some b \<Longrightarrow>
     list_all isUpperAZ b \<and> 2 \<le> length b \<and> length b \<le> 4 \<and> (\<exists>pre post. s = pre @ b @ post)"
proof (induction s rule: match_unanchored.induct)
  case 1
  then show ?case by simp
next
  case (2 c)
  then show ?case by simp
next
  case (3 c e cs)
  show ?case
  proof (cases "isUpperAZ c \<and> isUpperAZ e")
    case True
    let ?run = "takeWhile isUpperAZ (c # e # cs)"
    from True 3(2) have b: "b = take 4 ?run" by simp
    have all: "list_all isUpperAZ ?run"
      by (simp only: list_all_iff) (meson set_takeWhileD)
    then have "list_all isUpperAZ b"
      by (simp only: b list_all_iff) (meson in_set_takeD)
    moreover have "2 \<le> length b" using True by (simp add: b)
    moreover have "length b \<le> 4" by (simp add: b)
    moreover have "c # e # cs = [] @ b @ (drop 4 ?run @ dropWhile isUpperAZ (c # e # cs))"
      unfolding b by (simp only: append_Nil append_assoc[symmetric] append_take_drop_id
          takeWhile_dropWhile_id)
    ultimately show ?thesis by blast
  next
    case False
    with 3 obtain pre post where "list_all isUpperAZ b" "2 \<le> length b" "length b \<le> 4"
      "e # cs = pre @ b @ post" by auto
    then have "c # e # cs = (c # pre) @ b @ post" by simp
    with \<open>list_all isUpperAZ b\<close> \<open>2 \<le> length b\<close> \<open>length b \<le> 4\<close> show ?thesis by blast
  qed
qed

lemma eligible_iff:
  "eligible candidateBranch a \<longleftrightarrow>
     a_subgroup a = [] \<or>
     (\<exists>br. candidateBranch = Some br \<and>
        (if includes_comma (toUpperCase (a_subgroup a))
         then toUpperCase br \<in> set (map trim (split_comma (toUpperCase (a_subgroup a))))
         else toUpperCase br = toUpperCase (a_subgroup a)))"
  by (auto simp add: eligible_def Let_def split: option.split)

lemma eligible_no_branch: "eligible None a \<longleftrightarrow> a_subgroup a = []"
  by (simp add: eligible_def)

text \<open>
  The list of getCandidateAssignments (the part of C3 that the code keeps): for an
  enrolled candidate the assignments sent are those of the class that are eligible
  for the branch that \<^verbatim>\<open>extractBranch\<close> reads from the registration number.
\<close>

lemma getCandidateAssignments_lists:
  assumes "au_role u = ''candidate''"
    and "find (\<lambda>c. c_id c = classId \<and> au_id u \<in> set (c_students c)) (classes d) = Some classData"
  shows "\<exists>rows. getCandidateAssignments d u classId = Reply 200 [] (Some rows)
     \<and> set (map cas_assignment rows) =
         {a \<in> set (assignments d). a_classId a = classId \<and>
            eligible (extractBranch_getCandidateAssignments
              (case findUserById d (au_id u) of
                 Some candidate \<Rightarrow> u_registrationNumber candidate | None \<Rightarrow> [])) a}"
proof -
  have w: "cas_assignment (withStatus classData (au_id u) a) = a" for a
    by (simp add: withStatus_def Let_def)
  show ?thesis using assms
    by (auto simp add: getCandidateAssignments_def Let_def w image_iff)
qed

text \<open>
  For a registration number without small letters and a trimmed subgroup (the schema
  trims it), the check of getSingleAssignment is the filter of getCandidateAssignments.
\<close>

lemma subgroupAllows_eq_eligible:
  assumes "findUserById d candidateId = Some candidate"
    and "toUpperCase (u_registrationNumber candidate) = u_registrationNumber candidate"
    and "trim (a_subgroup a) = a_subgroup a"
  shows "subgroupAllows d candidateId a
         = eligible (extractBranch_getCandidateAssignments (u_registrationNumber candidate)) a"
proof -
  have "extractBranch_getSingleAssignment (u_registrationNumber candidate)
        = extractBranch_getCandidateAssignments (u_registrationNumber candidate)"
    by (simp add: extractBranch_getSingleAssignment_def
          extractBranch_getCandidateAssignments_def assms(2))
  moreover have "extractBranch_getCandidateAssignments [] = None"
    by (simp add: extractBranch_getCandidateAssignments_def)
  ultimately show ?thesis using assms(1,3)
    by (auto simp add: subgroupAllows_def eligible_def Let_def split: option.split)
qed

text \<open>
  C3 at the first candidate of the example, whose registration number is
  \<^verbatim>\<open>22bce10100\<close>, and the assignment restricted to \<^verbatim>\<open>BCE\<close>. getCandidateAssignments
  puts the number in upper case, reads the branch \<^verbatim>\<open>BCE\<close> and lists the assignment;
  getSingleAssignment does not, finds no branch and refuses the same candidate the
  same assignment with 403. The two handlers do not apply the same rule.
\<close>

theorem getSingleAssignment_refuses_listed_assignment:
  "extractBranch_getCandidateAssignments ''22bce10100'' = Some ''BCE''
   \<and> extractBranch_getSingleAssignment ''22bce10100'' = None
   \<and> map (\<lambda>x. a_id (cas_assignment x))
        (the (payload (getCandidateAssignments demo_db demo_candidate7 1))) = [1]
   \<and> getSingleAssignment demo_db demo_candidate7 (\<lambda>i. 0) 500 1
       = Reply 403 ''You are not authorized to access this quiz (subgroup mismatch)'' None"
  by code_simp

subsection \<open>Rounding\<close>

text \<open>
  \<open>fl x\<close> is a number with a significand of at most 53 bits that is within half a unit
  in the last place of \<open>x\<close>: the relative error of one operation is at most
  \<open>2\<^sup>-\<^sup>5\<^sup>3\<close>.
\<close>

text \<open>The double nearest to one tenth, and three numbers that are doubles already.\<close>

lemma fl_examples:
  "fl (1 / 10) = 3602879701896397 / 36028797018963968"
  "fl 100 = 100"
  "fl (1 / 4) = 1 / 4"
  "fl (- 3) = - 3"
  by code_simp+

lemma bitlen_le_0: "n \<le> 0 \<Longrightarrow> bitlen n = 0"
  by (subst bitlen.simps) simp

lemma bitlen_gt_0: "0 < n \<Longrightarrow> bitlen n = 1 + bitlen (n div 2)"
  by (subst bitlen.simps) simp

lemma bitlen_nonneg: "0 \<le> bitlen n"
proof (induction n rule: bitlen.induct)
  case (1 n)
  show ?case
  proof (cases "n \<le> 0")
    case True
    then show ?thesis by (simp add: bitlen_le_0)
  next
    case False
    with 1 show ?thesis by (simp add: bitlen_gt_0)
  qed
qed

lemma bitlen_pos: "0 < n \<Longrightarrow> 0 < bitlen n"
  using bitlen_nonneg[of "n div 2"] by (simp add: bitlen_gt_0)

lemma bitlen_bounds:
  "0 < n \<Longrightarrow> 2 ^ nat (bitlen n - 1) \<le> n \<and> n < 2 ^ nat (bitlen n)"
proof (induction n rule: bitlen.induct)
  case (1 n)
  show ?case
  proof (cases "n div 2 = 0")
    case True
    with 1(2) have "n = 1" by auto
    then show ?thesis by (simp add: bitlen_gt_0 bitlen_le_0)
  next
    case False
    with 1(2) have pos: "0 < n div 2" by (simp add: pos_imp_zdiv_pos_iff)
    let ?k = "bitlen (n div 2)"
    have k: "0 < ?k" using pos by (rule bitlen_pos)
    from 1(1) 1(2) pos have ih: "2 ^ nat (?k - 1) \<le> n div 2" "n div 2 < 2 ^ nat ?k"
      by auto
    have b: "bitlen n = 1 + ?k" using 1(2) by (simp add: bitlen_gt_0)
    have "nat ?k = Suc (nat (?k - 1))" using k by simp
    then have p: "(2::int) ^ nat ?k = 2 * 2 ^ nat (?k - 1)" by simp
    have "nat (1 + ?k) = Suc (nat ?k)" using k by simp
    then have q: "(2::int) ^ nat (1 + ?k) = 2 * 2 ^ nat ?k" by simp
    have lo: "2 * (n div 2) \<le> n" by presburger
    have hi: "n < 2 * (n div 2) + 2" by presburger
    have "(2::int) ^ nat (bitlen n - 1) = 2 ^ nat ?k" by (simp add: b)
    then have "2 ^ nat (bitlen n - 1) \<le> n" using ih(1) lo p by linarith
    moreover have "(2::int) ^ nat (bitlen n) = 2 * 2 ^ nat ?k" by (simp only: b q)
    then have "n < 2 ^ nat (bitlen n)" using ih(2) hi by linarith
    ultimately show ?thesis by simp
  qed
qed

lemma pow2_powi: "pow2 e = 2 powi e"
  by (simp add: pow2_def power_int_def inverse_eq_divide power_one_over)

lemma pow2_pos: "0 < pow2 e"
  by (simp add: pow2_powi)

lemma pow2_add: "pow2 (i + j) = pow2 i * pow2 j"
  by (simp add: pow2_powi power_int_add)

lemma pow2_mono: "i \<le> j \<Longrightarrow> pow2 i \<le> pow2 j"
  by (simp add: pow2_powi power_int_increasing)

lemma pow2_nat: "0 \<le> k \<Longrightarrow> pow2 k = of_int (2 ^ nat k)"
  by (simp add: pow2_def)

lemma ilog2_bounds:
  assumes "0 < x"
  shows "pow2 (ilog2 x) \<le> x \<and> x < pow2 (ilog2 x + 1)"
proof -
  obtain a b where q: "quotient_of x = (a, b)" by (cases "quotient_of x")
  then have b: "0 < b" by (rule quotient_of_denom_pos)
  have x: "x = of_int a / of_int b" using q by (rule quotient_of_div)
  with assms b have a: "0 < a" by (simp add: zero_less_divide_iff)
  let ?la = "bitlen a" and ?lb = "bitlen b"
  let ?d = "?la - ?lb"
  have la: "0 < ?la" and lb: "0 < ?lb" using a b by (simp_all add: bitlen_pos)
  from bitlen_bounds[OF a] have a1: "pow2 (?la - 1) \<le> of_int a" and a2: "of_int a < pow2 ?la"
    using la by (simp_all add: pow2_nat del: of_int_power)
  from bitlen_bounds[OF b] have b1: "pow2 (?lb - 1) \<le> of_int b" and b2: "of_int b < pow2 ?lb"
    using lb by (simp_all add: pow2_nat del: of_int_power)
  have bpos: "(0::rat) < of_int b" using b by simp
  have "pow2 (?d - 1) * of_int b \<le> pow2 (?d - 1) * pow2 ?lb"
    using b2 pow2_pos[of "?d - 1"] by (simp add: less_imp_le)
  also have "\<dots> = pow2 (?la - 1)" by (simp add: pow2_add[symmetric])
  also have "\<dots> \<le> of_int a" by (rule a1)
  finally have lo: "pow2 (?d - 1) \<le> x"
    using bpos by (simp add: x pos_le_divide_eq)
  have "of_int a < pow2 ?la" by (rule a2)
  also have "\<dots> = pow2 (?d + 1) * pow2 (?lb - 1)" by (simp add: pow2_add[symmetric])
  also have "\<dots> \<le> pow2 (?d + 1) * of_int b"
    using b1 pow2_pos[of "?d + 1"] by simp
  finally have hi: "x < pow2 (?d + 1)"
    using bpos by (simp add: x pos_divide_less_eq)
  show ?thesis
  proof (cases "pow2 ?d \<le> x")
    case True
    then have "ilog2 x = ?d" by (simp add: ilog2_def q)
    with True hi show ?thesis by simp
  next
    case False
    then have "ilog2 x = ?d - 1" by (simp add: ilog2_def q)
    with False lo show ?thesis by simp
  qed
qed

lemma round_half_even_error: "\<bar>of_int (round_half_even m) - m\<bar> \<le> 1 / 2"
proof -
  have "of_int \<lfloor>m\<rfloor> \<le> m" "m < of_int \<lfloor>m\<rfloor> + 1" by linarith+
  then show ?thesis
    by (auto simp add: round_half_even_def Let_def abs_le_iff)
qed


text \<open>The significand of \<open>fl x\<close> has at most 53 bits.\<close>

lemma fl_significand:
  assumes "x \<noteq> 0"
  shows "fl x = of_int (round_half_even (x / pow2 (ilog2 \<bar>x\<bar> - 52))) * pow2 (ilog2 \<bar>x\<bar> - 52)"
    and "\<bar>round_half_even (x / pow2 (ilog2 \<bar>x\<bar> - 52))\<bar> \<le> 2 ^ 53"
proof -
  let ?e = "ilog2 \<bar>x\<bar> - 52"
  let ?m = "x / pow2 ?e"
  show "fl x = of_int (round_half_even ?m) * pow2 ?e"
    using assms by (simp add: fl_def Let_def)
  have p: "0 < pow2 ?e" by (rule pow2_pos)
  have "\<bar>x\<bar> < pow2 (ilog2 \<bar>x\<bar> + 1)" using ilog2_bounds[of "\<bar>x\<bar>"] assms by simp
  also have "\<dots> = pow2 53 * pow2 ?e" by (simp add: pow2_add[symmetric] add.commute)
  finally have "\<bar>?m\<bar> < pow2 53" using p by (simp add: pos_divide_less_eq abs_mult)
  then have m: "\<bar>?m\<bar> < 2 ^ 53" by (simp add: pow2_def)
  have "\<bar>of_int (round_half_even ?m) - ?m\<bar> \<le> 1 / 2" by (rule round_half_even_error)
  with m have "\<bar>(of_int (round_half_even ?m) :: rat)\<bar> < 2 ^ 53 + 1" by linarith
  then have "\<bar>(of_int (round_half_even ?m) :: rat)\<bar> < of_int (2 ^ 53 + 1)" by simp
  then have "\<bar>round_half_even ?m\<bar> < 2 ^ 53 + 1"
    by (simp only: of_int_abs[symmetric] of_int_less_iff)
  then show "\<bar>round_half_even ?m\<bar> \<le> 2 ^ 53" by simp
qed



subsection \<open>Marks in the class results\<close>









end
